theory Spec2Isabelle
  imports Complex_Main "HOL-Library.Word" "HOL-Library.AList"
begin

unbundle bit_operations_syntax

section \<open>JavaScript values\<close>

text \<open>
  The engine is JavaScript. A Number is an IEEE double; here a finite Number is a real,
  and the three special doubles are constructors of their own. A Number that the code
  makes with \<open>Number(x.toFixed(d))\<close> is the double nearest to a decimal, and the model
  holds that decimal. The synthesizers' own arithmetic is done on exact reals: what is
  stated about it rests on the integer generator (which is exact in doubles), on order
  and on the structure of the code. Where the outcome of double arithmetic on such Numbers
  decides a statement (the mean of the forecast scores), every operation is rounded to
  the nearest double, \<open>toDouble\<close> below.
\<close>

datatype jsnum = Fin real | PosInf | NegInf | NaN

datatype jsval =
    JUndefined
  | JNull
  | JBool bool
  | JNum jsnum
  | JStr string
  | JArr "jsval list"
  | JObj "(string \<times> jsval) list"

text \<open>The three-way result of an expression that yields an object, \<open>null\<close> or
  \<open>undefined\<close>.\<close>

datatype 'a nullable = IsNull | IsUndefined | Is 'a

text \<open>\<open>typeof v\<close>.\<close>

fun typeof :: "jsval \<Rightarrow> string" where
  "typeof JUndefined = ''undefined''"
| "typeof JNull = ''object''"
| "typeof (JBool b) = ''boolean''"
| "typeof (JNum n) = ''number''"
| "typeof (JStr s) = ''string''"
| "typeof (JArr xs) = ''object''"
| "typeof (JObj kvs) = ''object''"

text \<open>\<open>Number.isNaN(v)\<close>: true for the Number NaN only.\<close>

fun Number_isNaN :: "jsval \<Rightarrow> bool" where
  "Number_isNaN (JNum NaN) = True"
| "Number_isNaN v = False"

text \<open>\<open>v > c\<close> and \<open>v >= c\<close> for a Number \<open>v\<close> and a finite constant \<open>c\<close>; every
  comparison with NaN is false. (The code compares only after \<open>typeof v === 'number'\<close>.)\<close>

fun js_gt :: "jsval \<Rightarrow> real \<Rightarrow> bool" where
  "js_gt (JNum (Fin x)) c = (x > c)"
| "js_gt (JNum PosInf) c = True"
| "js_gt v c = False"

fun js_ge :: "jsval \<Rightarrow> real \<Rightarrow> bool" where
  "js_ge (JNum (Fin x)) c = (x \<ge> c)"
| "js_ge (JNum PosInf) c = True"
| "js_ge v c = False"

text \<open>Property read \<open>o[k]\<close> on the entries of an object: \<open>undefined\<close> when absent.\<close>

definition objGet :: "(string \<times> jsval) list \<Rightarrow> string \<Rightarrow> jsval" where
  "objGet kvs k = (case map_of kvs k of None \<Rightarrow> JUndefined | Some v \<Rightarrow> v)"

text \<open>\<open>v?.k\<close>: \<open>undefined\<close> on \<open>null\<close> and \<open>undefined\<close>; the values below that are
  not objects carry none of the properties the code reads.\<close>

fun optGet :: "jsval \<Rightarrow> string \<Rightarrow> jsval" where
  "optGet (JObj kvs) k = objGet kvs k"
| "optGet v k = JUndefined"

text \<open>\<open>a ?? b\<close>.\<close>

fun nullish :: "jsval \<Rightarrow> jsval \<Rightarrow> jsval" where
  "nullish JUndefined b = b"
| "nullish JNull b = b"
| "nullish a b = a"

text \<open>Truthiness, as \<open>!v\<close> tests it.\<close>

fun truthy :: "jsval \<Rightarrow> bool" where
  "truthy JUndefined = False"
| "truthy JNull = False"
| "truthy (JBool b) = b"
| "truthy (JNum (Fin x)) = (x \<noteq> 0)"
| "truthy (JNum NaN) = False"
| "truthy (JNum n) = True"
| "truthy (JStr s) = (s \<noteq> [])"
| "truthy (JArr xs) = True"
| "truthy (JObj kvs) = True"

text \<open>\<open>Number(x.toFixed(d))\<close> for a finite \<open>x\<close> below \<open>1e21\<close>: the decimal with \<open>d\<close>
  fraction digits nearest to \<open>x\<close>, the larger one on a tie; a negative \<open>x\<close> is rounded
  as \<open>-x\<close> and the sign put back.\<close>

definition toFixed :: "nat \<Rightarrow> real \<Rightarrow> real" where
  "toFixed d x =
     (if x < 0 then - (of_int \<lfloor>(- x) * 10 ^ d + 1 / 2\<rfloor> / 10 ^ d)
      else of_int \<lfloor>x * 10 ^ d + 1 / 2\<rfloor> / 10 ^ d)"

text \<open>Rounding a real to the nearest integer, a tie to the even one.\<close>

definition roundHalfEven :: "real \<Rightarrow> int" where
  "roundHalfEven q =
     (let f = \<lfloor>q\<rfloor>
      in if q - of_int f < 1 / 2 then f
         else if 1 / 2 < q - of_int f then f + 1
         else if even f then f else f + 1)"

text \<open>The IEEE double nearest to a real (round to nearest, ties to even): with
  \<open>2^e \<le> |x| < 2^(e+1)\<close> the doubles around \<open>x\<close> are the multiples of \<open>2^(e-52)\<close>.
  Overflow and subnormal numbers are not modelled; the magnitudes met here lie between 1
  and 4096.\<close>

definition toDouble :: "real \<Rightarrow> real" where
  "toDouble x =
     (if x = 0 then 0
      else let e = \<lfloor>log 2 \<bar>x\<bar>\<rfloor>;
               ulp = 2 powr (of_int e - 52)
           in of_int (roundHalfEven (x / ulp)) * ulp)"

text \<open>Template-literal rendering of an integer Number: decimal digits, \<open>-\<close> first when
  negative.\<close>

fun showNat :: "nat \<Rightarrow> string" where
  "showNat n =
     (if n < 10 then [''0123456789'' ! n]
      else showNat (n div 10) @ [''0123456789'' ! (n mod 10)])"

declare showNat.simps [simp del]

definition showInt :: "int \<Rightarrow> string" where
  "showInt i = (if i < 0 then CHR ''-'' # showNat (nat (- i)) else showNat (nat i))"

section \<open>Seed derivation and the generator (methodology.jsx)\<close>

text \<open>
  \<^verbatim>\<open>hash = (hash << 5) - hash + value.charCodeAt(i); hash |= 0;\<close>
  The hash is a 32-bit integer after every step; \<open>hash >>> 0\<close> reads it unsigned.
  Cell ids and the other seed strings are ASCII, one \<open>char\<close> per code unit.
\<close>

fun stringToSeed_loop :: "string \<Rightarrow> 32 word \<Rightarrow> 32 word" where
  "stringToSeed_loop [] hash = hash"
| "stringToSeed_loop (c # cs) hash =
     stringToSeed_loop cs (push_bit 5 hash - hash + of_nat (of_char c))"

definition stringToSeed :: "string \<Rightarrow> nat" where
  "stringToSeed v = unat (stringToSeed_loop v 0)"

text \<open>
  \<open>mulberry32(a)\<close> returns a closure over the mutable \<open>a\<close>. The closure's state is passed
  explicitly: \<open>generator a\<close> is one call, giving the draw and the new \<open>a\<close>. The source
  adds \<open>0x6d2b79f5\<close> to \<open>a\<close> as a Number, without truncation (an exact integer for any
  number of calls made here); the bitwise operators and \<open>Math.imul\<close> then work on its low
  32 bits.
\<close>

definition generator :: "nat \<Rightarrow> real \<times> nat" where
  "generator a =
     (let a' = a + 0x6d2b79f5;
          t0 = (word_of_nat a' :: 32 word);
          t1 = (t0 XOR drop_bit 15 t0) * (t0 OR 1);
          t2 = t1 XOR (t1 + (t1 XOR drop_bit 7 t1) * (t1 OR 61))
      in (real (unat (t2 XOR drop_bit 14 t2)) / 4294967296, a'))"

definition clamp :: "real \<Rightarrow> real \<Rightarrow> real \<Rightarrow> real" where
  "clamp v lo hi = min (max v lo) hi"

section \<open>The risk classifier (geo.jsx)\<close>

text \<open>The band table. Its display fields \<open>range\<close>, \<open>label\<close> and \<open>action\<close> are
  Cyrillic text and are left out.\<close>

record riskBand =
  band_id :: string
  badgeClass :: string
  rowClass :: string

definition riskBands :: "riskBand list" where
  "riskBands =
     [\<lparr>band_id = ''stable'', badgeClass = ''bg-emerald-500/20 text-emerald-200'',
        rowClass = ''bg-emerald-500/5''\<rparr>,
      \<lparr>band_id = ''watch'', badgeClass = ''bg-amber-500/20 text-amber-200'',
        rowClass = ''bg-amber-500/5''\<rparr>,
      \<lparr>band_id = ''alert'', badgeClass = ''bg-orange-500/20 text-orange-200'',
        rowClass = ''bg-orange-500/5''\<rparr>,
      \<lparr>band_id = ''critical'', badgeClass = ''bg-rose-500/20 text-rose-200'',
        rowClass = ''bg-rose-500/5''\<rparr>]"

text \<open>\<open>riskBands.find((band) => band.id === id)\<close>: \<open>undefined\<close> when nothing matches.\<close>

definition findBand :: "string \<Rightarrow> riskBand nullable" where
  "findBand i =
     (case List.find (\<lambda>band. band_id band = i) riskBands of
        None \<Rightarrow> IsUndefined
      | Some band \<Rightarrow> Is band)"

definition resolveRiskBand :: "jsval \<Rightarrow> riskBand nullable" where
  "resolveRiskBand score =
     (if typeof score \<noteq> ''number'' \<or> Number_isNaN score then IsNull
      else if js_gt score 130 then findBand ''critical''
      else if js_ge score 110 then findBand ''alert''
      else if js_ge score 95 then findBand ''watch''
      else findBand ''stable'')"

text \<open>The id of the band a classification returned, if it returned one.\<close>

fun bandIdOf :: "riskBand nullable \<Rightarrow> string option" where
  "bandIdOf (Is band) = Some (band_id band)"
| "bandIdOf r = None"

section \<open>The cell risk synthesizer (methodology.jsx)\<close>

text \<open>
  What the synthesizer takes from outside the repository's sources: the two functions of
  the h3 library, the district table of \<open>domain/territories\<close>, the wall clock behind
  \<open>new Date().toISOString()\<close>, and the local-time calendar of \<open>Date\<close> (the accessors
  applied to a time value in milliseconds).
\<close>

record runtime =
  cellToLatLng :: "string \<Rightarrow> jsval"
  cellToBoundary :: "string \<Rightarrow> jsval"
  districtLookup :: "string \<Rightarrow> jsval"
  nowISOString :: string
  getFullYear :: "int \<Rightarrow> int"
  getMonth :: "int \<Rightarrow> int"
  getDate :: "int \<Rightarrow> int"

text \<open>The summary object. The advisory sentences are Russian in the source; each is
  given here by an ASCII rendering.\<close>

record hexagonSummary =
  cellId :: string
  center :: jsval
  boundary :: jsval
  riskIndex :: real
  maxRisk :: real
  balanceIndex :: real
  peakBalance :: real
  maintenanceScore :: real
  leakProbability :: real
  flowRate :: real
  pressure :: real
  supplyRatio :: real
  dataset :: string
  status :: string
  advisories :: "string list"
  updatedAt :: string
  districtKey :: jsval
  districtLabel :: jsval

definition createSyntheticHexagonSummary :: "runtime \<Rightarrow> string \<Rightarrow> int \<Rightarrow> hexagonSummary" where
  "createSyntheticHexagonSummary rt cid year =
     (let baseSeed = stringToSeed (cid @ ''-'' @ showInt year);
          center = cellToLatLng rt cid;
          boundary = cellToBoundary rt cid;
          districtMeta = districtLookup rt cid;
          (r1, a1) = generator baseSeed;
          flowRate = 45 + r1 * 160;
          (r2, a2) = generator a1;
          pressure = 4.2 + r2 * 1.5;
          (r3, a3) = generator a2;
          leakProbability = clamp (0.12 + r3 * 0.55) 0.05 0.8;
          (r4, a4) = generator a3;
          maintenanceScore = 0.74 + r4 * 0.25;
          (r5, a5) = generator a4;
          baseRisk = 92 + r5 * 48 + leakProbability * 55;
          (r6, a6) = generator a5;
          peakDeviation = baseRisk + r6 * 18;
          balanceIndex = clamp (100 - (baseRisk - 90) * 0.4) 35 100;
          peakBalance = clamp (100 - (peakDeviation - 90) * 0.45) 30 100;
          (r7, a7) = generator a6;
          supplyRatio = clamp (0.9 + r7 * 0.18) 0.82 1.18;
          advisories =
            (if baseRisk > 135 then
               [''Urgent inspection of the heat substation and metering unit: send the emergency crew.'',
                ''Prepare a report on suspected unauthorised consumption.'']
             else if baseRisk > 115 then
               [''Request readings from the backup sensors and check the link to the controller.'',
                ''Prepare a crew for a selective walk-round of the risers within 24 hours.'']
             else if baseRisk > 100 then
               [''Record the trend in the shift log and keep checking every six hours.'']
             else
               [''Scenario is normal: keep automatic monitoring.'']);
          status =
            (if baseRisk > 135 then ''critical''
             else if baseRisk \<ge> 115 then ''alert''
             else if baseRisk \<ge> 100 then ''watch''
             else ''stable'')
      in \<lparr>cellId = cid,
          center = center,
          boundary = boundary,
          riskIndex = toFixed 2 baseRisk,
          maxRisk = toFixed 2 peakDeviation,
          balanceIndex = toFixed 2 balanceIndex,
          peakBalance = toFixed 2 peakBalance,
          maintenanceScore = toFixed 2 (maintenanceScore * 100),
          leakProbability = toFixed 1 (leakProbability * 100),
          flowRate = toFixed 1 flowRate,
          pressure = toFixed 2 pressure,
          supplyRatio = toFixed 3 supplyRatio,
          dataset = ''synthetic'',
          status = status,
          advisories = advisories,
          updatedAt = nowISOString rt,
          districtKey = nullish (optGet districtMeta ''key'') JNull,
          districtLabel = nullish (optGet districtMeta ''label'') JNull\<rparr>)"

section \<open>The telemetry series synthesizer (methodology.jsx)\<close>

record telemetrySeries =
  labels :: "int list"
  temperature :: "real list"
  rain :: "real list"
  humidity :: "real list"
  cloudiness :: "real list"
  soilMoisture :: "real list"
  soilTemperature :: "real list"

text \<open>One pass of the loop body for \<open>hour\<close>: the generator state and the seven arrays go
  in and come out. The rain branch draws once more only when \<open>rainChance\<close> exceeds a
  threshold.\<close>

definition telemetryHour ::
  "runtime \<Rightarrow> int \<Rightarrow> nat \<Rightarrow> nat \<times> telemetrySeries \<Rightarrow> nat \<times> telemetrySeries" where
  "telemetryHour rt startTimestamp hour st =
     (let (a0, acc) = st;
          ts = startTimestamp + int hour * 60 * 60 * 1000;
          dailyCycle = sin ((real (hour mod 24) / 24) * pi * 2);
          seasonalCycle = sin ((real_of_int (getMonth rt ts + 1) / 12) * pi * 2);
          (r1, a1) = generator a0;
          temp = clamp (4 + seasonalCycle * 14 + dailyCycle * 6 + (r1 - 0.5) * 2.2) (- 15) 32;
          (r2, a2) = generator a1;
          hum = clamp (68 - seasonalCycle * 20 + dailyCycle * 8 + (r2 - 0.5) * 18) 28 99;
          (r3, a3) = generator a2;
          cloud = clamp (45 + seasonalCycle * 25 + (r3 - 0.5) * 40) 5 100;
          (r4, a4) = generator a3;
          soilT = clamp (6 + seasonalCycle * 9 + (r4 - 0.5) * 1.8) (- 4) 24;
          (r5, a5) = generator a4;
          soilM = clamp (48 + seasonalCycle * 12 + (r5 - 0.5) * 20) 15 95;
          (rainChance, a6) = generator a5;
          (rainValue, a7) =
            (if rainChance > 0.88 then
               (let (r7, a) = generator a6 in (clamp (r7 * 6.5) 0.2 9.5, a))
             else if rainChance > 0.75 then
               (let (r7, a) = generator a6 in (clamp (r7 * 3.2) 0.1 4, a))
             else (0, a6))
      in (a7,
          acc\<lparr>labels := labels acc @ [ts],
              temperature := temperature acc @ [toFixed 2 temp],
              humidity := humidity acc @ [toFixed 2 hum],
              cloudiness := cloudiness acc @ [toFixed 2 cloud],
              soilTemperature := soilTemperature acc @ [toFixed 2 soilT],
              soilMoisture := soilMoisture acc @ [toFixed 2 soilM],
              rain := rain acc @ [toFixed 2 rainValue]\<rparr>))"

definition createTelemetrySeries ::
  "runtime \<Rightarrow> string \<Rightarrow> int \<Rightarrow> int \<Rightarrow> telemetrySeries" where
  "createTelemetrySeries rt cid year startTimestamp =
     (let hours = 24 * 7;
          telemetrySeed =
            stringToSeed
              (cid @ ''-'' @ showInt year @ ''-'' @ showInt (getFullYear rt startTimestamp)
                 @ ''-'' @ showInt (getMonth rt startTimestamp)
                 @ ''-'' @ showInt (getDate rt startTimestamp))
      in snd (fold (telemetryHour rt startTimestamp) [0..<hours]
                (telemetrySeed,
                 \<lparr>labels = [], temperature = [], rain = [], humidity = [], cloudiness = [],
                  soilMoisture = [], soilTemperature = []\<rparr>)))"

section \<open>The node forecast synthesizer (methodology.jsx)\<close>

record forecast =
  nodeId :: string
  riskScore :: real

text \<open>The loop body for \<open>index\<close>. The loop runs only when the catalog is not empty, so
  the index \<open>(offset + index) % nodeIds.length\<close> is within the catalog.\<close>

definition forecastStep ::
  "string list \<Rightarrow> nat \<Rightarrow> nat \<Rightarrow> nat \<times> forecast list \<Rightarrow> nat \<times> forecast list" where
  "forecastStep nodeIds offset index st =
     (let (a0, items) = st;
          nid = nodeIds ! ((offset + index) mod length nodeIds);
          (r1, a1) = generator a0;
          baseline = 92 + r1 * 45;
          (r2, a2) = generator a1;
          fluctuation = (r2 - 0.5) * 18;
          score = toFixed 2 (baseline + fluctuation)
      in (a2, items @ [\<lparr>nodeId = nid, riskScore = score\<rparr>]))"

text \<open>\<open>items.sort((a, b) => b.riskScore - a.riskScore)\<close> is a stable sort by descending
  score: the stable insertion sort on the negated score.\<close>

definition createSyntheticForecasts :: "string \<Rightarrow> int \<Rightarrow> string list \<Rightarrow> forecast list" where
  "createSyntheticForecasts cid year nodeIds =
     (let seed = stringToSeed (''forecast-'' @ cid @ ''-'' @ showInt year);
          (r0, a0) = generator seed;
          count = min 14 (length nodeIds);
          offset = nat \<lfloor>r0 * real (length nodeIds)\<rfloor>;
          items = snd (fold (forecastStep nodeIds offset) [0..<count] (a0, []))
      in sort_key (\<lambda>item. - riskScore item) items)"

section \<open>The bundle composer (methodology.jsx)\<close>

text \<open>The numeric fields of \<open>analytics\<close>; its identifier, address and the two empty
  arrays are constants of presentation and are left out.\<close>

record analytics =
  daysObserved :: nat
  anomalyCount :: int
  anomalyRate :: real
  averageDeviation :: real
  maxDeviation :: real
  medianDeviation :: real
  analyticsSupplyRatio :: real

record syntheticBundle =
  summary :: hexagonSummary
  telemetry :: telemetrySeries
  forecasts :: "forecast list"
  analytics :: analytics

text \<open>\<open>summary.riskIndex = ...\<close> and \<open>summary.maxRisk = ...\<close> are two assignments to the
  object the synthesizer returned; \<open>forecasts.length || 1\<close> is 1 for the empty list, and
  \<open>forecasts[0]?.riskScore ?? summary.maxRisk\<close> falls back when there is no first
  forecast. The mean is double arithmetic on the scores: \<open>reduce\<close> adds them from the
  left, starting at 0, each sum rounded to a double, and the quotient is rounded once
  more; \<open>toDouble (riskScore item)\<close> is the double the code holds for the decimal score.\<close>

definition createSyntheticBundle ::
  "runtime \<Rightarrow> string \<Rightarrow> int \<Rightarrow> int \<Rightarrow> string list \<Rightarrow> syntheticBundle" where
  "createSyntheticBundle rt cid year startTimestamp nodeIds =
     (let summary0 = createSyntheticHexagonSummary rt cid year;
          telemetry = createTelemetrySeries rt cid year startTimestamp;
          forecasts = createSyntheticForecasts cid year nodeIds;
          averageRisk =
            toDouble
              (foldl (\<lambda>acc item. toDouble (acc + toDouble (riskScore item))) 0 forecasts
                 / (if length forecasts = 0 then 1 else real (length forecasts)));
          summary1 = summary0\<lparr>riskIndex := toFixed 2 averageRisk\<rparr>;
          summary2 = summary1\<lparr>maxRisk :=
            toFixed 2 (case forecasts of [] \<Rightarrow> maxRisk summary1 | f # fs \<Rightarrow> riskScore f)\<rparr>;
          analytics =
            \<lparr>daysObserved = 90,
             anomalyCount = \<lfloor>leakProbability summary2 / 100 * 12 + 1 / 2\<rfloor>,
             anomalyRate = toFixed 2 (leakProbability summary2),
             averageDeviation = toFixed 2 (100 - balanceIndex summary2),
             maxDeviation = toFixed 2 (100 - peakBalance summary2),
             medianDeviation = toFixed 2 ((100 - balanceIndex summary2) * 0.6),
             analyticsSupplyRatio = supplyRatio summary2\<rparr>
      in \<lparr>summary = summary2, telemetry = telemetry, forecasts = forecasts,
          analytics = analytics\<rparr>)"

section \<open>The reconciliation layer (geo.jsx)\<close>

text \<open>The synthetic summary as the object the merge spreads: its properties in the order
  of the object literal.\<close>

definition summaryObject :: "hexagonSummary \<Rightarrow> (string \<times> jsval) list" where
  "summaryObject s =
     [(''cellId'', JStr (cellId s)),
      (''center'', center s),
      (''boundary'', boundary s),
      (''riskIndex'', JNum (Fin (riskIndex s))),
      (''maxRisk'', JNum (Fin (maxRisk s))),
      (''balanceIndex'', JNum (Fin (balanceIndex s))),
      (''peakBalance'', JNum (Fin (peakBalance s))),
      (''maintenanceScore'', JNum (Fin (maintenanceScore s))),
      (''leakProbability'', JNum (Fin (leakProbability s))),
      (''flowRate'', JNum (Fin (flowRate s))),
      (''pressure'', JNum (Fin (pressure s))),
      (''supplyRatio'', JNum (Fin (supplyRatio s))),
      (''dataset'', JStr (dataset s)),
      (''status'', JStr (status s)),
      (''advisories'', JArr (map JStr (advisories s))),
      (''updatedAt'', JStr (updatedAt s)),
      (''districtKey'', districtKey s),
      (''districtLabel'', districtLabel s)]"

text \<open>\<open>{...target, ...source}\<close> and \<open>{...target, k: v}\<close>: a property that exists keeps
  its place and takes the new value, a new one is appended.\<close>

definition spread :: "(string \<times> jsval) list \<Rightarrow> (string \<times> jsval) list \<Rightarrow> (string \<times> jsval) list" where
  "spread source target = fold (\<lambda>(k, v). AList.update k v) source target"

text \<open>\<open>typeof a === 'number' && !Number.isNaN(a) ? a : b\<close>.\<close>

definition numberOr :: "jsval \<Rightarrow> jsval \<Rightarrow> jsval" where
  "numberOr a b = (if typeof a = ''number'' \<and> \<not> Number_isNaN a then a else b)"

text \<open>\<open>resolveDistrict(cellId)\<close>, for a truthy \<open>cellId\<close>.\<close>

definition resolveDistrict :: "runtime \<Rightarrow> string \<Rightarrow> jsval" where
  "resolveDistrict rt cid = (if cid = [] then JNull else nullish (districtLookup rt cid) JNull)"

text \<open>
  \<open>mergeHexagonWithSynthetic(hexagon)\<close>, with \<open>selectedYear\<close> of the enclosing component
  as an argument. Only an object can carry a \<open>cellId\<close>; every other value, \<open>null\<close> and
  \<open>undefined\<close> included, leaves through the guard \<open>!hexagon?.cellId\<close>. A truthy
  \<open>cellId\<close> that is not a string is outside the model (\<open>None\<close>): the synthesizer would
  turn it into a string and hand it to h3.
\<close>

fun mergeHexagonWithSynthetic :: "runtime \<Rightarrow> int \<Rightarrow> jsval \<Rightarrow> jsval option" where
  "mergeHexagonWithSynthetic rt selectedYear (JObj hexagon) =
     (case objGet hexagon ''cellId'' of
        JStr cid \<Rightarrow>
          if \<not> truthy (JStr cid) then Some (JObj hexagon)
          else
            (let synthetic = summaryObject (createSyntheticHexagonSummary rt cid selectedYear);
                 districtMeta = resolveDistrict rt cid
             in Some (JObj
                  (spread
                     [(''center'', nullish (objGet hexagon ''center'') (objGet synthetic ''center'')),
                      (''boundary'',
                         nullish (objGet hexagon ''boundary'') (objGet synthetic ''boundary'')),
                      (''districtKey'',
                         nullish (objGet hexagon ''districtKey'')
                           (nullish (objGet synthetic ''districtKey'')
                              (nullish (optGet districtMeta ''key'') JNull))),
                      (''districtLabel'',
                         nullish (objGet hexagon ''districtLabel'')
                           (nullish (objGet synthetic ''districtLabel'')
                              (nullish (optGet districtMeta ''label'') JNull))),
                      (''riskIndex'',
                         numberOr (objGet hexagon ''riskIndex'') (objGet synthetic ''riskIndex'')),
                      (''maxRisk'',
                         numberOr (objGet hexagon ''maxRisk'') (objGet synthetic ''maxRisk'')),
                      (''maxYield'',
                         numberOr (objGet hexagon ''maxYield'') (objGet synthetic ''maxYield'')),
                      (''yield'', numberOr (objGet hexagon ''yield'') (objGet synthetic ''yield'')),
                      (''score'', numberOr (objGet hexagon ''score'') (objGet synthetic ''score'')),
                      (''leakProbability'',
                         numberOr (objGet hexagon ''leakProbability'')
                           (objGet synthetic ''leakProbability'')),
                      (''flowRate'',
                         numberOr (objGet hexagon ''flowRate'') (objGet synthetic ''flowRate'')),
                      (''pressure'',
                         numberOr (objGet hexagon ''pressure'') (objGet synthetic ''pressure'')),
                      (''dataset'',
                         nullish (objGet hexagon ''dataset'') (objGet synthetic ''dataset'')),
                      (''status'', nullish (objGet hexagon ''status'') (objGet synthetic ''status'')),
                      (''advisories'',
                         nullish (objGet hexagon ''advisories'') (objGet synthetic ''advisories'')),
                      (''updatedAt'',
                         nullish (objGet hexagon ''updatedAt'') (objGet synthetic ''updatedAt''))]
                     (spread hexagon (spread synthetic [])))))
      | v \<Rightarrow> if \<not> truthy v then Some (JObj hexagon) else None)"
| "mergeHexagonWithSynthetic rt selectedYear hexagon = Some hexagon"

declare mergeHexagonWithSynthetic.simps [simp del]

text \<open>Reading property \<open>k\<close> of what the merge returned.\<close>

definition resultGet :: "jsval option \<Rightarrow> string \<Rightarrow> jsval option" where
  "resultGet r k = map_option (\<lambda>v. optGet v k) r"

section \<open>A runtime to evaluate in\<close>

text \<open>
  The calendar of \<open>Date\<close> in the UTC time zone: the civil date of a day number counted
  from 1970-01-01 (proleptic Gregorian), month 1 to 12.
\<close>

definition civilFromDays :: "int \<Rightarrow> int \<times> int \<times> int" where
  "civilFromDays days =
     (let z = days + 719468;
          era = z div 146097;
          doe = z - era * 146097;
          yoe = (doe - doe div 1460 + doe div 36524 - doe div 146096) div 365;
          doy = doe - (365 * yoe + yoe div 4 - yoe div 100);
          mp = (5 * doy + 2) div 153;
          d = doy - (153 * mp + 2) div 5 + 1;
          m = (if mp < 10 then mp + 3 else mp - 9);
          y = yoe + era * 400 + (if m \<le> 2 then 1 else 0)
      in (y, m, d))"

definition utcFullYear :: "int \<Rightarrow> int" where
  "utcFullYear ms = fst (civilFromDays (ms div 86400000))"

definition utcMonth :: "int \<Rightarrow> int" where
  "utcMonth ms = fst (snd (civilFromDays (ms div 86400000))) - 1"

definition utcDate :: "int \<Rightarrow> int" where
  "utcDate ms = snd (snd (civilFromDays (ms div 86400000)))"

text \<open>A runtime for concrete instances: the UTC calendar, a fixed clock reading, an empty
  district table, and h3 functions that answer with fixed geometry.\<close>

definition utcRuntime :: runtime where
  "utcRuntime =
     \<lparr>cellToLatLng = (\<lambda>cid. JArr [JNum (Fin 0), JNum (Fin 0)]),
      cellToBoundary = (\<lambda>cid. JArr []),
      districtLookup = (\<lambda>cid. JUndefined),
      nowISOString = ''2025-06-10T00:00:00.000Z'',
      getFullYear = utcFullYear,
      getMonth = utcMonth,
      getDate = utcDate\<rparr>"

section \<open>Draws by position\<close>

text \<open>The \<open>k\<close>-th draw (from 0) of the generator started at \<open>seed\<close>: each call adds the
  same constant to the state.\<close>

definition draw :: "nat \<Rightarrow> nat \<Rightarrow> real" where
  "draw seed k = fst (generator (seed + k * 0x6d2b79f5))"

section \<open>The mean in double arithmetic\<close>

text \<open>The sum of a list of decimal Numbers as \<open>reduce((acc, x) => acc + x, 0)\<close> computes it
  in doubles, and the mean as that sum divided by the length, in doubles.\<close>

definition doubleSum :: "real list \<Rightarrow> real" where
  "doubleSum xs = foldl (\<lambda>acc x. toDouble (acc + toDouble x)) 0 xs"

definition doubleMean :: "real list \<Rightarrow> real" where
  "doubleMean xs = toDouble (doubleSum xs / real (length xs))"

section \<open>Rounding and the generator\<close>

lemma toFixed_mono: "x \<le> y \<Longrightarrow> toFixed d x \<le> toFixed d y"
proof -
  assume xy: "x \<le> y"
  have p: "(0::real) < 10 ^ d" by simp
  have fl: "real_of_int \<lfloor>u * 10 ^ d + 1 / 2\<rfloor> / 10 ^ d \<le> real_of_int \<lfloor>v * 10 ^ d + 1 / 2\<rfloor> / 10 ^ d"
    if "u \<le> v" for u v :: real
  proof -
    have "u * 10 ^ d + 1 / 2 \<le> v * 10 ^ d + 1 / 2" using that p by simp
    then have "\<lfloor>u * 10 ^ d + 1 / 2\<rfloor> \<le> \<lfloor>v * 10 ^ d + 1 / 2\<rfloor>" by (rule floor_mono)
    then show ?thesis using p by (simp add: divide_right_mono)
  qed
  have nn: "0 \<le> real_of_int \<lfloor>u * 10 ^ d + 1 / 2\<rfloor> / 10 ^ d" if "0 \<le> u" for u :: real
  proof -
    have "0 \<le> u * 10 ^ d + 1 / 2" using that by simp
    then have "0 \<le> \<lfloor>u * 10 ^ d + 1 / 2\<rfloor>" by simp
    then show ?thesis by simp
  qed
  consider "y < 0" | "x < 0" "0 \<le> y" | "0 \<le> x" using xy by linarith
  then show ?thesis
  proof cases
    case 1
    then have "x < 0" using xy by simp
    from fl [of "- y" "- x"] xy 1 \<open>x < 0\<close> show ?thesis by (simp add: toFixed_def)
  next
    case 2
    have "toFixed d x = - (real_of_int \<lfloor>(- x) * 10 ^ d + 1 / 2\<rfloor> / 10 ^ d)"
      using 2 by (simp only: toFixed_def if_True)
    moreover have "toFixed d y = real_of_int \<lfloor>y * 10 ^ d + 1 / 2\<rfloor> / 10 ^ d"
      using 2 by (simp only: toFixed_def not_less [symmetric] if_False)
    ultimately show ?thesis using nn [of "- x"] nn [of y] 2 by linarith
  next
    case 3
    then have "0 \<le> y" using xy by simp
    from fl [of x y] xy 3 \<open>0 \<le> y\<close> show ?thesis by (simp add: toFixed_def)
  qed
qed

lemma unit_interval_word:
  "0 \<le> real (unat (w :: 32 word)) / 4294967296 \<and> real (unat w) / 4294967296 < 1"
proof -
  have "unat w < 4294967296"
    using unsigned_less [of w, where ?'a = nat] by simp
  then have "real (unat w) < 4294967296" by linarith
  moreover have "0 \<le> real (unat w)" by (rule of_nat_0_le_iff)
  ultimately show ?thesis by simp
qed

lemma generator_range: "0 \<le> fst (generator a) \<and> fst (generator a) < 1"
  by (simp only: generator_def Let_def fst_conv) (rule unit_interval_word)


lemma toFixed_const: "toFixed 2 135 = 135" "toFixed 2 115 = 115" "toFixed 2 100 = 100"
  by (simp_all add: toFixed_def)

lemma generator_draw: "generator a = (draw a 0, a + 0x6d2b79f5)"
  by (simp add: draw_def generator_def Let_def)

lemma draw_shift: "draw (a + 0x6d2b79f5) k = draw a (Suc k)"
  by (simp add: draw_def add.assoc)

lemma Suc_numerals:
  "Suc 0 = 1" "Suc 1 = 2" "Suc 2 = 3" "Suc 3 = 4" "Suc 4 = 5" "Suc 5 = 6" "Suc 6 = 7"
  by simp_all

lemmas draw_simps = generator_draw prod.case draw_shift Suc_numerals

lemma draw_range: "0 \<le> draw a k \<and> draw a k < 1"
  unfolding draw_def by (rule generator_range)

lemma toFixed_const2: "toFixed 2 83 = 83" "toFixed 2 146 = 146"
  by (simp_all add: toFixed_def)

subsection \<open>Rounding to a double\<close>

lemma roundHalfEven_error: "\<bar>of_int (roundHalfEven q) - q\<bar> \<le> 1 / 2"
  unfolding roundHalfEven_def Let_def by (auto simp: abs_le_iff)

lemma toDouble_0: "toDouble 0 = 0"
  by (simp add: toDouble_def)

lemma toDouble_at:
  assumes "2 powr of_int e \<le> \<bar>x\<bar>" and "\<bar>x\<bar> < 2 powr (of_int e + 1)"
  shows "toDouble x = of_int (roundHalfEven (x / 2 powr (of_int e - 52))) * 2 powr (of_int e - 52)"
proof -
  have "(0::real) < 2 powr of_int e" by simp
  then have pos: "0 < \<bar>x\<bar>" using assms(1) by linarith
  then have "\<lfloor>log 2 \<bar>x\<bar>\<rfloor> = e"
    using assms by (subst floor_log_eq_powr_iff) simp_all
  then show ?thesis using pos by (simp add: toDouble_def Let_def)
qed

text \<open>Between \<open>2^k\<close> and \<open>2^(k+1)\<close>, \<open>k \<le> 52\<close>: the nearest multiple of \<open>2^(k-52)\<close>.\<close>

lemma toDouble_eval:
  assumes "2 ^ k \<le> \<bar>x\<bar>" and "\<bar>x\<bar> < 2 ^ Suc k" and "k \<le> 52"
  shows "toDouble x = of_int (roundHalfEven (x * 2 ^ (52 - k))) / 2 ^ (52 - k)"
proof -
  define m where "m = 52 - k"
  have a: "(2::real) powr of_int (int k) = 2 ^ k"
    using powr_realpow [of 2 k] by simp
  have b: "(2::real) powr (of_int (int k) + 1) = 2 ^ Suc k"
    using powr_realpow [of 2 "Suc k"] by (simp add: add.commute)
  have "real m = 52 - real k" unfolding m_def using assms(3) by (simp add: of_nat_diff)
  then have "real_of_int (int k) - 52 = - real m" by simp
  then have "(2::real) powr (of_int (int k) - 52) = 2 powr (- real m)" by (rule arg_cong)
  also have "\<dots> = 1 / 2 powr real m" by (rule powr_minus_divide)
  also have "\<dots> = 1 / 2 ^ m" using powr_realpow [of 2 m] by simp
  finally have c: "(2::real) powr (of_int (int k) - 52) = 1 / 2 ^ m" .
  have "toDouble x = of_int (roundHalfEven (x / (1 / 2 ^ m))) * (1 / 2 ^ m)"
    using toDouble_at [of "int k" x] assms(1,2) unfolding a b c by blast
  also have "x / (1 / 2 ^ m) = x * 2 ^ m" by simp
  finally show ?thesis unfolding m_def by simp
qed

lemma toDouble_error:
  assumes "\<bar>x\<bar> < 4096"
  shows "\<bar>toDouble x - x\<bar> \<le> 1 / 2 ^ 42"
proof (cases "x = 0")
  case True
  then show ?thesis by (simp add: toDouble_0)
next
  case False
  define e where "e = \<lfloor>log 2 \<bar>x\<bar>\<rfloor>"
  define u :: real where "u = 2 powr (of_int e - 52)"
  have upos: "0 < u" unfolding u_def by simp
  have p12: "(2::real) powr 12 = 4096" by simp
  have "log 2 \<bar>x\<bar> < 12"
  proof -
    have "0 < \<bar>x\<bar>" using False by simp
    moreover have "\<bar>x\<bar> < 2 powr 12" using assms p12 by simp
    ultimately show ?thesis using log_less_iff [of 2 "\<bar>x\<bar>" 12] by simp
  qed
  then have "e \<le> 11" unfolding e_def by linarith
  then have "real_of_int e - 52 \<le> - 41" by simp
  then have "u \<le> 2 powr (- 41)" unfolding u_def by (intro powr_mono) simp_all
  also have "\<dots> = 1 / 2 powr 41" by (rule powr_minus_divide)
  also have "\<dots> = 1 / 2 ^ 41" by simp
  finally have ule: "u \<le> 1 / 2 ^ 41" .
  have td: "toDouble x = of_int (roundHalfEven (x / u)) * u"
    unfolding toDouble_def Let_def e_def u_def using False by (simp only: if_False)
  have "toDouble x - x = (of_int (roundHalfEven (x / u)) - x / u) * u"
    using upos by (simp add: td left_diff_distrib)
  then have "\<bar>toDouble x - x\<bar> = \<bar>of_int (roundHalfEven (x / u)) - x / u\<bar> * u"
    using upos by (simp add: abs_mult)
  also have "\<dots> \<le> 1 / 2 * u"
    using roundHalfEven_error [of "x / u"] upos by (intro mult_right_mono) simp_all
  also have "\<dots> \<le> 1 / 2 * (1 / 2 ^ 41)" using ule by (intro mult_left_mono) simp_all
  also have "\<dots> = 1 / 2 ^ 42" by simp
  finally show ?thesis .
qed


section \<open>The classifier\<close>

lemma findBand_simps:
  "findBand ''critical'' =
     Is \<lparr>band_id = ''critical'', badgeClass = ''bg-rose-500/20 text-rose-200'',
         rowClass = ''bg-rose-500/5''\<rparr>"
  "findBand ''alert'' =
     Is \<lparr>band_id = ''alert'', badgeClass = ''bg-orange-500/20 text-orange-200'',
         rowClass = ''bg-orange-500/5''\<rparr>"
  "findBand ''watch'' =
     Is \<lparr>band_id = ''watch'', badgeClass = ''bg-amber-500/20 text-amber-200'',
         rowClass = ''bg-amber-500/5''\<rparr>"
  "findBand ''stable'' =
     Is \<lparr>band_id = ''stable'', badgeClass = ''bg-emerald-500/20 text-emerald-200'',
         rowClass = ''bg-emerald-500/5''\<rparr>"
  by (simp_all add: findBand_def riskBands_def)

text \<open>
  Claim C8. \<open>resolveRiskBand\<close> returns \<open>null\<close> exactly when the score is not a Number or
  is NaN. For a Number it returns the band \<open>critical\<close> above 130, \<open>alert\<close> from 110 to
  130 (both included), \<open>watch\<close> from 95 (included) to 110 (excluded) and \<open>stable\<close> below
  95; the two infinities fall in the outer bands.
\<close>

theorem resolveRiskBand_partition:
  "(resolveRiskBand score = IsNull \<longleftrightarrow> typeof score \<noteq> ''number'' \<or> Number_isNaN score) \<and>
   (score = JNum (Fin x) \<longrightarrow>
      (130 < x \<longrightarrow> bandIdOf (resolveRiskBand score) = Some ''critical'') \<and>
      (110 \<le> x \<and> x \<le> 130 \<longrightarrow> bandIdOf (resolveRiskBand score) = Some ''alert'') \<and>
      (95 \<le> x \<and> x < 110 \<longrightarrow> bandIdOf (resolveRiskBand score) = Some ''watch'') \<and>
      (x < 95 \<longrightarrow> bandIdOf (resolveRiskBand score) = Some ''stable'')) \<and>
   (score = JNum PosInf \<longrightarrow> bandIdOf (resolveRiskBand score) = Some ''critical'') \<and>
   (score = JNum NegInf \<longrightarrow> bandIdOf (resolveRiskBand score) = Some ''stable'')"
  by (auto simp: resolveRiskBand_def findBand_simps)

text \<open>The boundary scores of the specification, and two inputs without a
  classification.\<close>

theorem resolveRiskBand_partition_witness:
  "resolveRiskBand (JStr ''110'') = IsNull \<and>
   resolveRiskBand (JNum NaN) = IsNull \<and>
   bandIdOf (resolveRiskBand (JNum (Fin 94.9))) = Some ''stable'' \<and>
   bandIdOf (resolveRiskBand (JNum (Fin 95))) = Some ''watch'' \<and>
   bandIdOf (resolveRiskBand (JNum (Fin 109.9))) = Some ''watch'' \<and>
   bandIdOf (resolveRiskBand (JNum (Fin 110))) = Some ''alert'' \<and>
   bandIdOf (resolveRiskBand (JNum (Fin 130))) = Some ''alert'' \<and>
   bandIdOf (resolveRiskBand (JNum (Fin 130.1))) = Some ''critical''"
  using resolveRiskBand_partition [of "JStr ''110''"] resolveRiskBand_partition [of "JNum NaN"]
    resolveRiskBand_partition [of "JNum (Fin 94.9)" "94.9"] resolveRiskBand_partition [of "JNum (Fin 95)" "95"]
    resolveRiskBand_partition [of "JNum (Fin 109.9)" "109.9"] resolveRiskBand_partition [of "JNum (Fin 110)" "110"]
    resolveRiskBand_partition [of "JNum (Fin 130)" "130"] resolveRiskBand_partition [of "JNum (Fin 130.1)" "130.1"]
  by simp

section \<open>The synthesizer\<close>

lemma summary_riskIndex:
  "riskIndex (createSyntheticHexagonSummary rt cid year) =
     (let seed = stringToSeed (cid @ ''-'' @ showInt year) in
      toFixed 2 (92 + draw seed 4 * 48 + clamp (0.12 + draw seed 2 * 0.55) 0.05 0.8 * 55))"
  by (simp only: createSyntheticHexagonSummary_def Let_def draw_simps
      hexagonSummary.select_convs)

lemma summary_maxRisk:
  "maxRisk (createSyntheticHexagonSummary rt cid year) =
     (let seed = stringToSeed (cid @ ''-'' @ showInt year) in
      toFixed 2 (92 + draw seed 4 * 48 + clamp (0.12 + draw seed 2 * 0.55) 0.05 0.8 * 55
                 + draw seed 5 * 18))"
  by (simp only: createSyntheticHexagonSummary_def Let_def draw_simps
      hexagonSummary.select_convs)

lemma summary_status:
  "status (createSyntheticHexagonSummary rt cid year) =
     (let seed = stringToSeed (cid @ ''-'' @ showInt year);
          baseRisk = 92 + draw seed 4 * 48 + clamp (0.12 + draw seed 2 * 0.55) 0.05 0.8 * 55
      in if baseRisk > 135 then ''critical''
         else if baseRisk \<ge> 115 then ''alert''
         else if baseRisk \<ge> 100 then ''watch''
         else ''stable'')"
  by (simp only: createSyntheticHexagonSummary_def Let_def draw_simps
      hexagonSummary.select_convs)

text \<open>
  Claim C7. For every cell id and year the summary of \<open>createSyntheticHexagonSummary\<close>
  has \<open>riskIndex \<le> maxRisk\<close>: the peak is the base risk plus a draw that is not
  negative, and rounding to two decimals keeps the order.
\<close>

theorem synthetic_riskIndex_le_maxRisk:
  "riskIndex (createSyntheticHexagonSummary rt cid year)
     \<le> maxRisk (createSyntheticHexagonSummary rt cid year)"
  unfolding summary_riskIndex summary_maxRisk Let_def
  using draw_range [of "stringToSeed (cid @ ''-'' @ showInt year)" 5]
  by (intro toFixed_mono) simp

text \<open>
  Claim C2, as the code has it. The status of a synthetic summary follows the
  synthesizer's own thresholds on the base risk, 135, 115 and 100, which are not the
  classifier's 130, 110 and 95. Read off the rounded \<open>riskIndex\<close>: above 135 the status is
  \<open>critical\<close>, strictly between 115 and 135 \<open>alert\<close>, strictly between 100 and 115
  \<open>watch\<close>, below 100 \<open>stable\<close>. (At exactly 135, 115 or 100 the rounded value does not
  tell on which side the base risk lay.)
\<close>

theorem synthetic_status_thresholds:
  "(135 < riskIndex (createSyntheticHexagonSummary rt cid year) \<longrightarrow>
      status (createSyntheticHexagonSummary rt cid year) = ''critical'') \<and>
   (115 < riskIndex (createSyntheticHexagonSummary rt cid year) \<and>
    riskIndex (createSyntheticHexagonSummary rt cid year) < 135 \<longrightarrow>
      status (createSyntheticHexagonSummary rt cid year) = ''alert'') \<and>
   (100 < riskIndex (createSyntheticHexagonSummary rt cid year) \<and>
    riskIndex (createSyntheticHexagonSummary rt cid year) < 115 \<longrightarrow>
      status (createSyntheticHexagonSummary rt cid year) = ''watch'') \<and>
   (riskIndex (createSyntheticHexagonSummary rt cid year) < 100 \<longrightarrow>
      status (createSyntheticHexagonSummary rt cid year) = ''stable'')"
proof -
  define b where "b = 92 + draw (stringToSeed (cid @ ''-'' @ showInt year)) 4 * 48
    + clamp (0.12 + draw (stringToSeed (cid @ ''-'' @ showInt year)) 2 * 0.55) 0.05 0.8 * 55"
  have ri: "riskIndex (createSyntheticHexagonSummary rt cid year) = toFixed 2 b"
    by (simp only: summary_riskIndex Let_def b_def)
  have st: "status (createSyntheticHexagonSummary rt cid year) =
       (if b > 135 then ''critical''
        else if b \<ge> 115 then ''alert''
        else if b \<ge> 100 then ''watch''
        else ''stable'')"
    by (simp only: summary_status Let_def b_def)
  have up: "toFixed 2 b \<le> c" if "b \<le> c" "toFixed 2 c = c" for c
    using toFixed_mono [OF that(1), of 2] that(2) by simp
  have lo: "c \<le> toFixed 2 b" if "c \<le> b" "toFixed 2 c = c" for c
    using toFixed_mono [OF that(1), of 2] that(2) by simp
  have c1: "135 < toFixed 2 b \<Longrightarrow> 135 < b" using up [of 135] toFixed_const by force
  have c2: "115 < toFixed 2 b \<Longrightarrow> 115 < b" using up [of 115] toFixed_const by force
  have c3: "100 < toFixed 2 b \<Longrightarrow> 100 < b" using up [of 100] toFixed_const by force
  have d1: "toFixed 2 b < 135 \<Longrightarrow> b < 135" using lo [of 135] toFixed_const by force
  have d2: "toFixed 2 b < 115 \<Longrightarrow> b < 115" using lo [of 115] toFixed_const by force
  have d3: "toFixed 2 b < 100 \<Longrightarrow> b < 100" using lo [of 100] toFixed_const by force
  show ?thesis
    unfolding ri st using c1 c2 c3 d1 d2 d3 by auto
qed

text \<open>The summary of cell \<open>85283473fffffff\<close> for 2025, evaluated.\<close>

lemma show2025: "showInt 2025 = ''2025''"
  by (simp add: showInt_def showNat.simps)

lemma sample_seed: "stringToSeed ''85283473fffffff-2025'' = 2033651144"
  by (simp add: stringToSeed_def)

lemma sample_draws:
  "draw 2033651144 2 = 1767340617 / 2147483648"
  "draw 2033651144 4 = 327083649 / 2147483648"
  "draw 2033651144 5 = 3870861573 / 4294967296"
  by (simp_all add: draw_def generator_def Let_def)

lemma sample_summary:
  "riskIndex (createSyntheticHexagonSummary rt ''85283473fffffff'' 2025) = 130.81"
  "maxRisk (createSyntheticHexagonSummary rt ''85283473fffffff'' 2025) = 147.03"
  "status (createSyntheticHexagonSummary rt ''85283473fffffff'' 2025) = ''alert''"
  by (simp_all add: summary_riskIndex summary_maxRisk summary_status show2025 sample_seed
      sample_draws Let_def clamp_def toFixed_def)

theorem synthetic_riskIndex_le_maxRisk_witness:
  "riskIndex (createSyntheticHexagonSummary utcRuntime ''85283473fffffff'' 2025) = 130.81 \<and>
   maxRisk (createSyntheticHexagonSummary utcRuntime ''85283473fffffff'' 2025) = 147.03 \<and>
   riskIndex (createSyntheticHexagonSummary utcRuntime ''85283473fffffff'' 2025)
     \<le> maxRisk (createSyntheticHexagonSummary utcRuntime ''85283473fffffff'' 2025)"
  using synthetic_riskIndex_le_maxRisk [of utcRuntime "''85283473fffffff''" 2025]
  by (simp add: sample_summary)

theorem synthetic_status_thresholds_witness:
  "115 < riskIndex (createSyntheticHexagonSummary utcRuntime ''85283473fffffff'' 2025) \<and>
   riskIndex (createSyntheticHexagonSummary utcRuntime ''85283473fffffff'' 2025) < 135 \<and>
   status (createSyntheticHexagonSummary utcRuntime ''85283473fffffff'' 2025) = ''alert''"
  using synthetic_status_thresholds [of utcRuntime "''85283473fffffff''" 2025]
  by (simp add: sample_summary(1))

text \<open>
  The status is not the classifier's band of \<open>riskIndex\<close>: for cell \<open>85283473fffffff\<close>
  and 2025 the base risk is about 130.806, the status is \<open>alert\<close> (not above 135), and
  \<open>resolveRiskBand(130.81)\<close> is the band \<open>critical\<close> (above 130).
\<close>

theorem status_is_not_classifier_band:
  "status (createSyntheticHexagonSummary utcRuntime ''85283473fffffff'' 2025) = ''alert'' \<and>
   riskIndex (createSyntheticHexagonSummary utcRuntime ''85283473fffffff'' 2025) = 130.81 \<and>
   bandIdOf (resolveRiskBand
     (JNum (Fin (riskIndex (createSyntheticHexagonSummary utcRuntime ''85283473fffffff'' 2025)))))
     = Some ''critical''"
  by (simp add: sample_summary resolveRiskBand_def findBand_simps)

section \<open>The telemetry series\<close>

lemma telemetryHour_labels:
  "labels (snd (telemetryHour rt t h (a, acc))) = labels acc @ [t + int h * 60 * 60 * 1000]"
  by (simp add: telemetryHour_def Let_def split: prod.splits)

lemma telemetryHour_cong:
  assumes "getMonth rt (t1 + int h * 60 * 60 * 1000) = getMonth rt (t2 + int h * 60 * 60 * 1000)"
    and "acc1\<lparr>labels := []\<rparr> = acc2\<lparr>labels := []\<rparr>"
  shows "fst (telemetryHour rt t1 h (a, acc1)) = fst (telemetryHour rt t2 h (a, acc2)) \<and>
         (snd (telemetryHour rt t1 h (a, acc1)))\<lparr>labels := []\<rparr>
           = (snd (telemetryHour rt t2 h (a, acc2)))\<lparr>labels := []\<rparr>"
proof -
  have acc2: "acc2 = acc1\<lparr>labels := labels acc2\<rparr>"
    using assms(2) by (cases acc1, cases acc2) simp
  show ?thesis
    using assms(1)
    by (subst (1 2) acc2) (simp add: telemetryHour_def Let_def split: prod.splits)
qed

lemma fold_telemetryHour_cong:
  assumes "\<forall>h \<in> set hs. getMonth rt (t1 + int h * 60 * 60 * 1000)
             = getMonth rt (t2 + int h * 60 * 60 * 1000)"
    and "acc1\<lparr>labels := []\<rparr> = acc2\<lparr>labels := []\<rparr>"
  shows "fst (fold (telemetryHour rt t1) hs (a, acc1)) = fst (fold (telemetryHour rt t2) hs (a, acc2)) \<and>
         (snd (fold (telemetryHour rt t1) hs (a, acc1)))\<lparr>labels := []\<rparr>
           = (snd (fold (telemetryHour rt t2) hs (a, acc2)))\<lparr>labels := []\<rparr>"
  using assms
proof (induction hs arbitrary: a acc1 acc2)
  case Nil
  then show ?case by simp
next
  case (Cons h hs)
  have step: "fst (telemetryHour rt t1 h (a, acc1)) = fst (telemetryHour rt t2 h (a, acc2)) \<and>
         (snd (telemetryHour rt t1 h (a, acc1)))\<lparr>labels := []\<rparr>
           = (snd (telemetryHour rt t2 h (a, acc2)))\<lparr>labels := []\<rparr>"
    using Cons.prems by (intro telemetryHour_cong) simp_all
  obtain a1 b1 where s1: "telemetryHour rt t1 h (a, acc1) = (a1, b1)"
    by (cases "telemetryHour rt t1 h (a, acc1)")
  obtain a2 b2 where s2: "telemetryHour rt t2 h (a, acc2) = (a2, b2)"
    by (cases "telemetryHour rt t2 h (a, acc2)")
  from step s1 s2 have "a1 = a2" "b1\<lparr>labels := []\<rparr> = b2\<lparr>labels := []\<rparr>" by simp_all
  with Cons.IH [of b1 b2 a2] Cons.prems(1) show ?case by (simp add: s1 s2)
qed

lemma fold_telemetryHour_labels:
  "labels (snd (fold (telemetryHour rt t) hs (a, acc)))
     = labels acc @ map (\<lambda>h. t + int h * 60 * 60 * 1000) hs"
proof (induction hs arbitrary: a acc)
  case Nil
  show ?case by simp
next
  case (Cons h hs)
  obtain a1 b1 where s1: "telemetryHour rt t h (a, acc) = (a1, b1)"
    by (cases "telemetryHour rt t h (a, acc)")
  have "labels b1 = labels acc @ [t + int h * 60 * 60 * 1000]"
    using telemetryHour_labels [of rt t h a acc] by (simp add: s1)
  then show ?case using Cons.IH [of a1 b1] by (simp add: s1)
qed

lemma telemetry_labels:
  "labels (createTelemetrySeries rt cid year t) = map (\<lambda>h. t + int h * 60 * 60 * 1000) [0..<168]"
  by (simp add: createTelemetrySeries_def Let_def fold_telemetryHour_labels)

text \<open>
  Claim C1, as the code has it. For two start timestamps on the same calendar date the
  seed is the same, and the six value sequences are equal provided each of the 168 hourly
  steps of the two windows falls in the same calendar month (the seasonal cycle reads the
  month of the step's own timestamp). The labels are the timestamps
  \<open>startTimestamp + hour * 3600000\<close> themselves, so they follow the start time.
\<close>

theorem telemetry_same_date:
  assumes "getFullYear rt t1 = getFullYear rt t2"
    and "getMonth rt t1 = getMonth rt t2"
    and "getDate rt t1 = getDate rt t2"
    and "\<forall>h<168. getMonth rt (t1 + int h * 60 * 60 * 1000)
            = getMonth rt (t2 + int h * 60 * 60 * 1000)"
  shows "temperature (createTelemetrySeries rt cid year t1) = temperature (createTelemetrySeries rt cid year t2) \<and>
    rain (createTelemetrySeries rt cid year t1) = rain (createTelemetrySeries rt cid year t2) \<and>
    humidity (createTelemetrySeries rt cid year t1) = humidity (createTelemetrySeries rt cid year t2) \<and>
    cloudiness (createTelemetrySeries rt cid year t1) = cloudiness (createTelemetrySeries rt cid year t2) \<and>
    soilMoisture (createTelemetrySeries rt cid year t1) = soilMoisture (createTelemetrySeries rt cid year t2) \<and>
    soilTemperature (createTelemetrySeries rt cid year t1) = soilTemperature (createTelemetrySeries rt cid year t2) \<and>
    labels (createTelemetrySeries rt cid year t1) = map (\<lambda>h. t1 + int h * 60 * 60 * 1000) [0..<168] \<and>
    labels (createTelemetrySeries rt cid year t2) = map (\<lambda>h. t2 + int h * 60 * 60 * 1000) [0..<168]"
proof -
  have m: "\<forall>h \<in> set [0..<168]. getMonth rt (t1 + int h * 60 * 60 * 1000)
             = getMonth rt (t2 + int h * 60 * 60 * 1000)"
    using assms(4) by simp
  have "(createTelemetrySeries rt cid year t1)\<lparr>labels := []\<rparr>
      = (createTelemetrySeries rt cid year t2)\<lparr>labels := []\<rparr>"
    unfolding createTelemetrySeries_def Let_def assms(1,2,3)
    using fold_telemetryHour_cong [OF m, of _ _ "stringToSeed
              (cid @ ''-'' @ showInt year @ ''-'' @ showInt (getFullYear rt t2)
                 @ ''-'' @ showInt (getMonth rt t2)
                 @ ''-'' @ showInt (getDate rt t2))"]
    by simp
  then have "temperature (createTelemetrySeries rt cid year t1) = temperature (createTelemetrySeries rt cid year t2)"
    "rain (createTelemetrySeries rt cid year t1) = rain (createTelemetrySeries rt cid year t2)"
    "humidity (createTelemetrySeries rt cid year t1) = humidity (createTelemetrySeries rt cid year t2)"
    "cloudiness (createTelemetrySeries rt cid year t1) = cloudiness (createTelemetrySeries rt cid year t2)"
    "soilMoisture (createTelemetrySeries rt cid year t1) = soilMoisture (createTelemetrySeries rt cid year t2)"
    "soilTemperature (createTelemetrySeries rt cid year t1) = soilTemperature (createTelemetrySeries rt cid year t2)"
    by (cases "createTelemetrySeries rt cid year t1", cases "createTelemetrySeries rt cid year t2", simp)+
  then show ?thesis by (simp only: telemetry_labels)
qed


text \<open>10 June 2025, 00:00 and 01:00 UTC; every hour of both windows lies in June.\<close>

lemma civil_june_2025:
  "civilFromDays 20249 = (2025, 6, 10)" "civilFromDays 20250 = (2025, 6, 11)"
  "civilFromDays 20251 = (2025, 6, 12)" "civilFromDays 20252 = (2025, 6, 13)"
  "civilFromDays 20253 = (2025, 6, 14)" "civilFromDays 20254 = (2025, 6, 15)"
  "civilFromDays 20255 = (2025, 6, 16)" "civilFromDays 20256 = (2025, 6, 17)"
  by (simp_all only: civilFromDays_def Let_def) simp_all

lemma utc_sample_dates:
  "utcFullYear 1749513600000 = 2025" "utcMonth 1749513600000 = 5" "utcDate 1749513600000 = 10"
  "utcFullYear 1749517200000 = 2025" "utcMonth 1749517200000 = 5" "utcDate 1749517200000 = 10"
  by (simp_all add: utcFullYear_def utcMonth_def utcDate_def civil_june_2025)

lemma utc_june_2025:
  assumes "1749513600000 \<le> ms" and "ms < 1750204800000"
  shows "utcFullYear ms = 2025 \<and> utcMonth ms = 5"
proof -
  define d where "d = ms div 86400000"
  have "(1749513600000::int) div 86400000 \<le> ms div 86400000"
    using assms(1) by (intro zdiv_mono1) simp_all
  then have lo: "20249 \<le> d" unfolding d_def by simp
  have "ms \<le> 1750204799999" using assms(2) by simp
  then have "ms div 86400000 \<le> (1750204799999::int) div 86400000"
    by (intro zdiv_mono1) simp_all
  then have hi: "d \<le> 20256" unfolding d_def by simp
  from lo hi have "d = 20249 \<or> d = 20250 \<or> d = 20251 \<or> d = 20252 \<or> d = 20253 \<or> d = 20254
      \<or> d = 20255 \<or> d = 20256"
    by linarith
  then have "fst (civilFromDays d) = 2025 \<and> fst (snd (civilFromDays d)) = 6"
    by (elim disjE) (simp_all add: civil_june_2025)
  then show ?thesis
    unfolding utcFullYear_def utcMonth_def d_def by simp
qed

lemma utcRuntime_simps:
  "getFullYear utcRuntime = utcFullYear" "getMonth utcRuntime = utcMonth"
  "getDate utcRuntime = utcDate"
  by (simp_all add: utcRuntime_def)

theorem telemetry_same_date_witness:
  "getFullYear utcRuntime 1749513600000 = getFullYear utcRuntime 1749517200000 \<and>
   getMonth utcRuntime 1749513600000 = getMonth utcRuntime 1749517200000 \<and>
   getDate utcRuntime 1749513600000 = getDate utcRuntime 1749517200000 \<and>
   temperature (createTelemetrySeries utcRuntime ''85283473fffffff'' 2025 1749513600000)
     = temperature (createTelemetrySeries utcRuntime ''85283473fffffff'' 2025 1749517200000) \<and>
   rain (createTelemetrySeries utcRuntime ''85283473fffffff'' 2025 1749513600000)
     = rain (createTelemetrySeries utcRuntime ''85283473fffffff'' 2025 1749517200000) \<and>
   humidity (createTelemetrySeries utcRuntime ''85283473fffffff'' 2025 1749513600000)
     = humidity (createTelemetrySeries utcRuntime ''85283473fffffff'' 2025 1749517200000) \<and>
   cloudiness (createTelemetrySeries utcRuntime ''85283473fffffff'' 2025 1749513600000)
     = cloudiness (createTelemetrySeries utcRuntime ''85283473fffffff'' 2025 1749517200000) \<and>
   soilMoisture (createTelemetrySeries utcRuntime ''85283473fffffff'' 2025 1749513600000)
     = soilMoisture (createTelemetrySeries utcRuntime ''85283473fffffff'' 2025 1749517200000) \<and>
   soilTemperature (createTelemetrySeries utcRuntime ''85283473fffffff'' 2025 1749513600000)
     = soilTemperature (createTelemetrySeries utcRuntime ''85283473fffffff'' 2025 1749517200000)"
proof -
  have m: "\<forall>h<168. getMonth utcRuntime (1749513600000 + int h * 60 * 60 * 1000)
            = getMonth utcRuntime (1749517200000 + int h * 60 * 60 * 1000)"
  proof (intro allI impI)
    fix h :: nat assume "h < 168"
    then have "utcMonth (1749513600000 + int h * 60 * 60 * 1000) = 5"
      "utcMonth (1749517200000 + int h * 60 * 60 * 1000) = 5"
      by (simp_all add: utc_june_2025)
    then show "getMonth utcRuntime (1749513600000 + int h * 60 * 60 * 1000)
            = getMonth utcRuntime (1749517200000 + int h * 60 * 60 * 1000)"
      by (simp add: utcRuntime_simps)
  qed
  have d: "getFullYear utcRuntime 1749513600000 = getFullYear utcRuntime 1749517200000"
    "getMonth utcRuntime 1749513600000 = getMonth utcRuntime 1749517200000"
    "getDate utcRuntime 1749513600000 = getDate utcRuntime 1749517200000"
    by (simp_all add: utcRuntime_simps utc_sample_dates)
  from telemetry_same_date [OF d m, of "''85283473fffffff''" 2025] d show ?thesis by simp
qed

text \<open>
  The labels of the two series differ although the calendar date is the same: each series
  starts at its own timestamp.
\<close>

theorem telemetry_labels_differ:
  "getFullYear utcRuntime 1749513600000 = getFullYear utcRuntime 1749517200000 \<and>
   getMonth utcRuntime 1749513600000 = getMonth utcRuntime 1749517200000 \<and>
   getDate utcRuntime 1749513600000 = getDate utcRuntime 1749517200000 \<and>
   hd (labels (createTelemetrySeries utcRuntime ''85283473fffffff'' 2025 1749513600000)) = 1749513600000 \<and>
   hd (labels (createTelemetrySeries utcRuntime ''85283473fffffff'' 2025 1749517200000)) = 1749517200000 \<and>
   labels (createTelemetrySeries utcRuntime ''85283473fffffff'' 2025 1749513600000)
     \<noteq> labels (createTelemetrySeries utcRuntime ''85283473fffffff'' 2025 1749517200000)"
proof -
  have u: "[0..<168] = 0 # [Suc 0..<168]" by (rule upt_conv_Cons) simp
  have h: "hd (labels (createTelemetrySeries utcRuntime ''85283473fffffff'' 2025 t)) = t" for t
    unfolding telemetry_labels u by simp
  have "labels (createTelemetrySeries utcRuntime ''85283473fffffff'' 2025 1749513600000)
     \<noteq> labels (createTelemetrySeries utcRuntime ''85283473fffffff'' 2025 1749517200000)"
  proof
    assume "labels (createTelemetrySeries utcRuntime ''85283473fffffff'' 2025 1749513600000)
     = labels (createTelemetrySeries utcRuntime ''85283473fffffff'' 2025 1749517200000)"
    then have "hd (labels (createTelemetrySeries utcRuntime ''85283473fffffff'' 2025 1749513600000))
     = hd (labels (createTelemetrySeries utcRuntime ''85283473fffffff'' 2025 1749517200000))"
      by (rule arg_cong)
    then show False by (simp only: h)
  qed
  then show ?thesis
    by (simp add: h utcRuntime_simps utc_sample_dates)
qed

section \<open>The forecasts\<close>

lemma toFixed_of_int: "toFixed d (of_int k / 10 ^ d) = of_int k / 10 ^ d"
proof -
  have half: "\<lfloor>real_of_int j + 1 / 2\<rfloor> = j" for j :: int by linarith
  show ?thesis
  proof (cases "k < 0")
    case True
    then have "real_of_int k / 10 ^ d < 0" by (simp add: divide_neg_pos)
    moreover have "- (real_of_int k / 10 ^ d) * 10 ^ d + 1 / 2 = real_of_int (- k) + 1 / 2"
      by simp
    ultimately show ?thesis
      by (simp only: toFixed_def if_True half)
  next
    case False
    then have "\<not> real_of_int k / 10 ^ d < 0" by (simp add: not_less)
    moreover have "real_of_int k / 10 ^ d * 10 ^ d + 1 / 2 = real_of_int k + 1 / 2"
      by simp
    ultimately show ?thesis
      by (simp only: toFixed_def if_False half)
  qed
qed

lemma toFixed_idem: "toFixed d (toFixed d x) = toFixed d x"
proof -
  have "\<exists>k. toFixed d x = of_int k / 10 ^ d"
  proof (cases "x < 0")
    case True
    then have "toFixed d x = of_int (- \<lfloor>(- x) * 10 ^ d + 1 / 2\<rfloor>) / 10 ^ d"
      by (simp add: toFixed_def)
    then show ?thesis by blast
  next
    case False
    then have "toFixed d x = of_int \<lfloor>x * 10 ^ d + 1 / 2\<rfloor> / 10 ^ d"
      by (simp add: toFixed_def)
    then show ?thesis by blast
  qed
  then show ?thesis using toFixed_of_int by auto
qed

lemma forecastStep_snd:
  "\<exists>x. 83 \<le> x \<and> x \<le> 146 \<and> snd (forecastStep nodeIds offset index st) =
     snd st @ [\<lparr>nodeId = nodeIds ! ((offset + index) mod length nodeIds), riskScore = toFixed 2 x\<rparr>]"
proof -
  obtain a0 items where st: "st = (a0, items)" by (cases st)
  obtain r1 a1 where g1: "generator a0 = (r1, a1)" by (cases "generator a0")
  obtain r2 a2 where g2: "generator a1 = (r2, a2)" by (cases "generator a1")
  have r: "0 \<le> r1" "r1 < 1" "0 \<le> r2" "r2 < 1"
    using generator_range [of a0] generator_range [of a1] by (simp_all add: g1 g2)
  have "83 \<le> 92 + r1 * 45 + (r2 - 0.5) * 18" "92 + r1 * 45 + (r2 - 0.5) * 18 \<le> 146"
    using r by simp_all
  moreover have "snd (forecastStep nodeIds offset index st) =
     snd st @ [\<lparr>nodeId = nodeIds ! ((offset + index) mod length nodeIds),
                riskScore = toFixed 2 (92 + r1 * 45 + (r2 - 0.5) * 18)\<rparr>]"
    by (simp add: forecastStep_def st g1 g2 Let_def)
  ultimately show ?thesis by blast
qed

lemma fold_forecastStep_length:
  "length (snd (fold (forecastStep nodeIds offset) hs st)) = length (snd st) + length hs"
proof (induction hs arbitrary: st)
  case Nil
  show ?case by simp
next
  case (Cons h hs)
  obtain x where "snd (forecastStep nodeIds offset h st) =
     snd st @ [\<lparr>nodeId = nodeIds ! ((offset + h) mod length nodeIds), riskScore = toFixed 2 x\<rparr>]"
    using forecastStep_snd by blast
  then show ?case using Cons.IH [of "forecastStep nodeIds offset h st"] by simp
qed

lemma fold_forecastStep_items:
  assumes "\<forall>item \<in> set (snd st). toFixed 2 (riskScore item) = riskScore item \<and>
             83 \<le> riskScore item \<and> riskScore item \<le> 146 \<and> nodeId item \<in> set nodeIds"
    and "nodeIds \<noteq> []"
  shows "\<forall>item \<in> set (snd (fold (forecastStep nodeIds offset) hs st)).
           toFixed 2 (riskScore item) = riskScore item \<and>
           83 \<le> riskScore item \<and> riskScore item \<le> 146 \<and> nodeId item \<in> set nodeIds"
  using assms(1)
proof (induction hs arbitrary: st)
  case Nil
  then show ?case by simp
next
  case (Cons h hs)
  obtain x where xr: "83 \<le> x" "x \<le> 146"
    and x: "snd (forecastStep nodeIds offset h st) =
     snd st @ [\<lparr>nodeId = nodeIds ! ((offset + h) mod length nodeIds), riskScore = toFixed 2 x\<rparr>]"
    using forecastStep_snd by blast
  have b: "83 \<le> toFixed 2 x" "toFixed 2 x \<le> 146"
    using toFixed_mono [OF xr(1), of 2] toFixed_mono [OF xr(2), of 2]
    by (simp_all add: toFixed_const2)
  have "(offset + h) mod length nodeIds < length nodeIds" using assms(2) by simp
  then have "nodeIds ! ((offset + h) mod length nodeIds) \<in> set nodeIds" by (rule nth_mem)
  then have "\<forall>item \<in> set (snd (forecastStep nodeIds offset h st)).
      toFixed 2 (riskScore item) = riskScore item \<and>
      83 \<le> riskScore item \<and> riskScore item \<le> 146 \<and> nodeId item \<in> set nodeIds"
    using Cons.prems b by (auto simp: x toFixed_idem)
  from Cons.IH [OF this] show ?case by simp
qed

lemma forecasts_unsorted:
  "\<exists>items. createSyntheticForecasts cid year nodeIds = sort_key (\<lambda>item. - riskScore item) items \<and>
     length items = min 14 (length nodeIds) \<and>
     (\<forall>item \<in> set items. toFixed 2 (riskScore item) = riskScore item \<and>
        83 \<le> riskScore item \<and> riskScore item \<le> 146 \<and>
        (nodeIds \<noteq> [] \<longrightarrow> nodeId item \<in> set nodeIds))"
proof (cases "nodeIds = []")
  case True
  then show ?thesis
    by (simp add: createSyntheticForecasts_def Let_def split: prod.splits)
next
  case False
  obtain r0 a0 where g: "generator (stringToSeed (''forecast-'' @ cid @ ''-'' @ showInt year)) = (r0, a0)"
    by (cases "generator (stringToSeed (''forecast-'' @ cid @ ''-'' @ showInt year))")
  define items where "items = snd (fold (forecastStep nodeIds (nat \<lfloor>r0 * real (length nodeIds)\<rfloor>))
      [0..<min 14 (length nodeIds)] (a0, []))"
  have "createSyntheticForecasts cid year nodeIds = sort_key (\<lambda>item. - riskScore item) items"
    using g by (simp add: createSyntheticForecasts_def Let_def items_def)
  moreover have "length items = min 14 (length nodeIds)"
    unfolding items_def by (simp add: fold_forecastStep_length)
  moreover have "\<forall>item \<in> set items. toFixed 2 (riskScore item) = riskScore item \<and>
      83 \<le> riskScore item \<and> riskScore item \<le> 146 \<and> nodeId item \<in> set nodeIds"
    unfolding items_def by (rule fold_forecastStep_items) (simp_all add: False)
  ultimately show ?thesis by blast
qed

lemma forecasts_length:
  "length (createSyntheticForecasts cid year nodeIds) = min 14 (length nodeIds)"
  using forecasts_unsorted [of cid year nodeIds] by auto

lemma forecasts_sorted:
  "sorted_wrt (\<lambda>a b. riskScore a \<ge> riskScore b) (createSyntheticForecasts cid year nodeIds)"
proof -
  obtain items where it: "createSyntheticForecasts cid year nodeIds = sort_key (\<lambda>item. - riskScore item) items"
    using forecasts_unsorted by blast
  have "sorted (map (\<lambda>item. - riskScore item) (sort_key (\<lambda>item. - riskScore item) items))"
    by (rule sorted_sort_key)
  then show ?thesis unfolding it by (simp add: sorted_map)
qed

lemma forecasts_nodes:
  "set (map nodeId (createSyntheticForecasts cid year nodeIds)) \<subseteq> set nodeIds"
proof -
  obtain items where it: "createSyntheticForecasts cid year nodeIds = sort_key (\<lambda>item. - riskScore item) items"
    "length items = min 14 (length nodeIds)"
    "\<forall>item \<in> set items. toFixed 2 (riskScore item) = riskScore item \<and>
        83 \<le> riskScore item \<and> riskScore item \<le> 146 \<and>
        (nodeIds \<noteq> [] \<longrightarrow> nodeId item \<in> set nodeIds)"
    using forecasts_unsorted by blast
  show ?thesis using it by (cases "nodeIds = []") auto
qed

lemma forecasts_empty: "createSyntheticForecasts cid year [] = []"
  by (simp add: createSyntheticForecasts_def Let_def split: prod.splits)

text \<open>The forecasts of cell \<open>85283473fffffff\<close> for 2025 over a catalog of three nodes,
  evaluated: the rotation offset is 2, so the nodes are visited in the order 3, 1, 2.\<close>

lemma forecast_seed: "stringToSeed ''forecast-85283473fffffff-2025'' = 3045983834"
  by (simp add: stringToSeed_def)

lemma forecast_draws:
  "generator 3045983834 = (822621187/1073741824, 4877549647)"
  "generator 4877549647 = (316653523/2147483648, 6709115460)"
  "generator 6709115460 = (425768069/4294967296, 8540681273)"
  "generator 8540681273 = (1318687941/2147483648, 10372247086)"
  "generator 10372247086 = (1493098189/4294967296, 12203812899)"
  "generator 12203812899 = (1337751437/2147483648, 14035378712)"
  "generator 14035378712 = (171253979/1073741824, 15866944525)"
  by (simp_all add: generator_def Let_def)

lemma upt3: "[0..<3] = [0, 1, 2]"
  by (simp add: upt_rec)

lemma sample_forecasts:
  "createSyntheticForecasts ''85283473fffffff'' 2025 [''PS0001'', ''PS0002'', ''PS0003''] =
     [\<lparr>nodeId = ''PS0001'', riskScore = 116.89\<rparr>,
      \<lparr>nodeId = ''PS0002'', riskScore = 113.9\<rparr>,
      \<lparr>nodeId = ''PS0003'', riskScore = 91.42\<rparr>]"
  by (simp add: createSyntheticForecasts_def show2025 forecast_seed forecast_draws Let_def upt3
      forecastStep_def toFixed_def)

text \<open>
  Claim C9. \<open>createSyntheticForecasts\<close> returns exactly \<open>min(14, |catalog|)\<close> forecasts, in
  descending order of \<open>riskScore\<close>, every node taken from the catalog (no index leaves it);
  the empty catalog gives the empty list.
\<close>

theorem forecasts_length_sorted:
  "length (createSyntheticForecasts cid year nodeIds) = min 14 (length nodeIds) \<and>
   sorted_wrt (\<lambda>a b. riskScore a \<ge> riskScore b) (createSyntheticForecasts cid year nodeIds) \<and>
   set (map nodeId (createSyntheticForecasts cid year nodeIds)) \<subseteq> set nodeIds \<and>
   createSyntheticForecasts cid year [] = []"
  using forecasts_length forecasts_sorted forecasts_nodes forecasts_empty by blast

theorem forecasts_length_sorted_witness:
  "createSyntheticForecasts ''85283473fffffff'' 2025 [''PS0001'', ''PS0002'', ''PS0003''] =
     [\<lparr>nodeId = ''PS0001'', riskScore = 116.89\<rparr>,
      \<lparr>nodeId = ''PS0002'', riskScore = 113.9\<rparr>,
      \<lparr>nodeId = ''PS0003'', riskScore = 91.42\<rparr>] \<and>
   length (createSyntheticForecasts ''85283473fffffff'' 2025 [''PS0001'', ''PS0002'', ''PS0003'']) = 3 \<and>
   sorted_wrt (\<lambda>a b. riskScore a \<ge> riskScore b)
     (createSyntheticForecasts ''85283473fffffff'' 2025 [''PS0001'', ''PS0002'', ''PS0003'']) \<and>
   createSyntheticForecasts ''85283473fffffff'' 2025 [] = []"
  using forecasts_length_sorted [of "''85283473fffffff''" 2025 "[''PS0001'', ''PS0002'', ''PS0003'']"]
  by (simp add: sample_forecasts)

section \<open>The bundle\<close>

lemma doubleSum_forecasts:
  "foldl (\<lambda>acc item. toDouble (acc + toDouble (riskScore item))) 0 fs = doubleSum (map riskScore fs)"
  by (simp add: doubleSum_def foldl_map)

lemma bundle_forecasts:
  "forecasts (createSyntheticBundle rt cid year ts nodeIds) = createSyntheticForecasts cid year nodeIds"
  by (simp add: createSyntheticBundle_def Let_def)

lemma bundle_summary:
  "summary (createSyntheticBundle rt cid year ts nodeIds) =
     (createSyntheticHexagonSummary rt cid year)
       \<lparr>riskIndex :=
          toFixed 2 (toDouble (doubleSum (map riskScore (createSyntheticForecasts cid year nodeIds))
            / (if length (createSyntheticForecasts cid year nodeIds) = 0 then 1
               else real (length (createSyntheticForecasts cid year nodeIds))))),
        maxRisk :=
          toFixed 2 (case createSyntheticForecasts cid year nodeIds of
                       [] \<Rightarrow> maxRisk (createSyntheticHexagonSummary rt cid year)
                     | f # fs \<Rightarrow> riskScore f)\<rparr>"
  by (cases "createSyntheticForecasts cid year nodeIds")
     (simp_all add: createSyntheticBundle_def Let_def doubleSum_forecasts)

lemma bundle_riskIndex:
  "riskIndex (summary (createSyntheticBundle rt cid year ts nodeIds)) =
     toFixed 2 (toDouble (doubleSum (map riskScore (createSyntheticForecasts cid year nodeIds))
       / (if length (createSyntheticForecasts cid year nodeIds) = 0 then 1
          else real (length (createSyntheticForecasts cid year nodeIds)))))"
  unfolding bundle_summary by simp

lemma sorted_desc_hd_Max:
  assumes "sorted_wrt (\<lambda>a b. riskScore a \<ge> riskScore b) (f # fs)"
  shows "Max (set (map riskScore (f # fs))) = riskScore f"
proof (rule Max_eqI)
  show "finite (set (map riskScore (f # fs)))" by simp
  show "riskScore f \<in> set (map riskScore (f # fs))" by simp
  fix y assume "y \<in> set (map riskScore (f # fs))"
  then show "y \<le> riskScore f" using assms by auto
qed

subsection \<open>The distance between the double mean and the exact mean\<close>

text \<open>Every sum of at most 27 Numbers between 0 and 146 stays below 4096, where two
  neighbouring doubles are at most \<open>2^-41\<close> apart: reading a score and adding it cost
  \<open>2^-42\<close> each.\<close>

lemma doubleSum_step_error:
  assumes "\<forall>x \<in> set xs. 0 \<le> x \<and> x \<le> 146"
    and "0 \<le> z" and "\<bar>z' - z\<bar> \<le> d"
    and "z + d + 147 * real (length xs) \<le> 4095"
  shows "\<bar>foldl (\<lambda>acc x. toDouble (acc + toDouble x)) z' xs - (z + sum_list xs)\<bar>
           \<le> d + 2 * real (length xs) / 2 ^ 42"
  using assms
proof (induction xs arbitrary: z z' d)
  case Nil
  then show ?case by simp
next
  case (Cons x xs)
  define eps :: real where "eps = 1 / 2 ^ 42"
  define n where "n = real (length xs)"
  have eps: "0 < eps" "eps \<le> 1 / 2" unfolding eps_def by simp_all
  have x: "0 \<le> x" "x \<le> 146" using Cons.prems(1) by simp_all
  have n: "0 \<le> n" unfolding n_def by simp
  have len: "real (length (x # xs)) = 1 + n" unfolding n_def by simp
  have p4: "z + d + 147 + 147 * n \<le> 4095"
    using Cons.prems(4) unfolding len distrib_left by simp
  have zz: "z' \<le> z + d" "z - d \<le> z'" using Cons.prems(3) by linarith+
  have z0: "0 \<le> z" by (rule Cons.prems(2))
  have "\<bar>toDouble x - x\<bar> \<le> eps"
    unfolding eps_def using x by (intro toDouble_error) simp
  then have ex: "toDouble x \<le> x + eps" "x - eps \<le> toDouble x" by linarith+
  have "z' + toDouble x < 4096" using ex(1) zz(1) x p4 n eps by linarith
  moreover have "- 4096 < z' + toDouble x" using ex(2) zz(2) x z0 p4 n eps by linarith
  ultimately have "\<bar>z' + toDouble x\<bar> < 4096" by linarith
  then have "\<bar>toDouble (z' + toDouble x) - (z' + toDouble x)\<bar> \<le> eps"
    unfolding eps_def by (rule toDouble_error)
  then have es: "toDouble (z' + toDouble x) \<le> z' + toDouble x + eps"
    "z' + toDouble x - eps \<le> toDouble (z' + toDouble x)" by linarith+
  have ih: "\<bar>foldl (\<lambda>acc x. toDouble (acc + toDouble x)) (toDouble (z' + toDouble x)) xs
              - (z + x + sum_list xs)\<bar> \<le> d + 2 * eps + 2 * real (length xs) / 2 ^ 42"
  proof (rule Cons.IH)
    show "\<forall>x \<in> set xs. 0 \<le> x \<and> x \<le> 146" using Cons.prems(1) by simp
    show "0 \<le> z + x" using z0 x by simp
    show "\<bar>toDouble (z' + toDouble x) - (z + x)\<bar> \<le> d + 2 * eps"
      using ex es zz by linarith
    have "z + x + (d + 2 * eps) + 147 * n \<le> 4095"
      using p4 x eps by linarith
    then show "z + x + (d + 2 * eps) + 147 * real (length xs) \<le> 4095"
      unfolding n_def .
  qed
  have "\<bar>foldl (\<lambda>acc x. toDouble (acc + toDouble x)) z' (x # xs) - (z + sum_list (x # xs))\<bar>
      = \<bar>foldl (\<lambda>acc x. toDouble (acc + toDouble x)) (toDouble (z' + toDouble x)) xs
              - (z + x + sum_list xs)\<bar>"
    by (simp add: add.assoc)
  also note ih
  also have "d + 2 * eps + 2 * real (length xs) / 2 ^ 42 = d + 2 * real (length (x # xs)) / 2 ^ 42"
    unfolding eps_def by (simp add: add_divide_distrib distrib_left)
  finally show ?case .
qed

lemma sum_list_bounds:
  assumes "\<forall>x \<in> set xs. (0::real) \<le> x \<and> x \<le> c"
  shows "0 \<le> sum_list xs \<and> sum_list xs \<le> c * real (length xs)"
  using assms by (induction xs) (auto simp: algebra_simps)

lemma doubleMean_error:
  assumes "xs \<noteq> []" and "length xs \<le> 14" and "\<forall>x \<in> set xs. 0 \<le> x \<and> x \<le> 146"
  shows "\<bar>doubleMean xs - sum_list xs / real (length xs)\<bar> \<le> 3 / 2 ^ 42"
proof -
  define n where "n = real (length xs)"
  define eps :: real where "eps = 1 / 2 ^ 42"
  have eps: "0 < eps" "eps \<le> 1 / 2" unfolding eps_def by simp_all
  have n: "1 \<le> n" "n \<le> 14"
    using assms(1,2) unfolding n_def by (simp_all add: Suc_le_eq)
  have "\<bar>doubleSum xs - (0 + sum_list xs)\<bar> \<le> 0 + 2 * real (length xs) / 2 ^ 42"
    unfolding doubleSum_def using assms(3) n unfolding n_def
    by (intro doubleSum_step_error) simp_all
  then have s: "\<bar>doubleSum xs - sum_list xs\<bar> \<le> 2 * eps * n"
    unfolding eps_def n_def by simp
  have b: "0 \<le> sum_list xs" "sum_list xs \<le> 146 * n"
    using sum_list_bounds [OF assms(3)] unfolding n_def by simp_all
  have "doubleSum xs / n - sum_list xs / n = (doubleSum xs - sum_list xs) / n"
    by (simp add: diff_divide_distrib)
  then have "\<bar>doubleSum xs / n - sum_list xs / n\<bar> = \<bar>doubleSum xs - sum_list xs\<bar> / n"
    using n by simp
  also have "\<dots> \<le> 2 * eps * n / n" using s n by (intro divide_right_mono) simp_all
  also have "\<dots> = 2 * eps" using n by simp
  finally have q: "\<bar>doubleSum xs / n - sum_list xs / n\<bar> \<le> 2 * eps" .
  have m: "0 \<le> sum_list xs / n" "sum_list xs / n \<le> 146"
    using b n by (simp_all add: field_simps)
  have "\<bar>doubleSum xs / n\<bar> < 4096" using q m eps by linarith
  then have "\<bar>toDouble (doubleSum xs / n) - doubleSum xs / n\<bar> \<le> eps"
    unfolding eps_def by (rule toDouble_error)
  then have "\<bar>toDouble (doubleSum xs / n) - sum_list xs / n\<bar> \<le> 3 * eps"
    using q by linarith
  then show ?thesis unfolding doubleMean_def n_def eps_def by simp
qed

text \<open>
  Claim C5, as the code has it. For a catalog that is not empty, the bundle has forecasts;
  its \<open>summary.riskIndex\<close> is the two-decimal rounding of the mean of their scores as
  double arithmetic computes it (the scores added from the left, starting at 0, the sum
  divided by their number, every operation rounded to the nearest double); that mean is
  within \<open>3 / 2^42\<close> of the exact arithmetic mean; and \<open>summary.maxRisk\<close> is the largest
  score (the first of the sorted list, already a two-decimal value).
\<close>

theorem bundle_aggregates_double_mean:
  assumes "nodeIds \<noteq> []"
  shows "forecasts (createSyntheticBundle rt cid year ts nodeIds) \<noteq> [] \<and>
    riskIndex (summary (createSyntheticBundle rt cid year ts nodeIds)) =
      toFixed 2 (doubleMean (map riskScore (forecasts (createSyntheticBundle rt cid year ts nodeIds)))) \<and>
    \<bar>doubleMean (map riskScore (forecasts (createSyntheticBundle rt cid year ts nodeIds)))
       - sum_list (map riskScore (forecasts (createSyntheticBundle rt cid year ts nodeIds)))
           / real (length (forecasts (createSyntheticBundle rt cid year ts nodeIds)))\<bar> \<le> 3 / 2 ^ 42 \<and>
    maxRisk (summary (createSyntheticBundle rt cid year ts nodeIds)) =
      Max (set (map riskScore (forecasts (createSyntheticBundle rt cid year ts nodeIds))))"
proof -
  define F where "F = createSyntheticForecasts cid year nodeIds"
  obtain items where it: "F = sort_key (\<lambda>item. - riskScore item) items"
    "length items = min 14 (length nodeIds)"
    "\<forall>item \<in> set items. toFixed 2 (riskScore item) = riskScore item \<and>
        83 \<le> riskScore item \<and> riskScore item \<le> 146 \<and>
        (nodeIds \<noteq> [] \<longrightarrow> nodeId item \<in> set nodeIds)"
    unfolding F_def using forecasts_unsorted by blast
  have len: "length F = min 14 (length nodeIds)"
    and srt: "sorted_wrt (\<lambda>a b. riskScore a \<ge> riskScore b) F"
    unfolding F_def
    using forecasts_sorted [of cid year nodeIds] forecasts_length [of cid year nodeIds] by simp_all
  from len assms obtain f fs where ffs: "F = f # fs"
    by (cases F) (auto simp: min_def split: if_splits)
  have sF: "set F = set items" unfolding it(1) by simp
  have "f \<in> set F" by (simp add: ffs)
  then have "f \<in> set items" unfolding sF .
  then have r: "toFixed 2 (riskScore f) = riskScore f" using it(3) by simp
  have m: "Max (set (map riskScore F)) = riskScore f"
    using srt unfolding ffs by (rule sorted_desc_hd_Max)
  have ne: "map riskScore F \<noteq> []" by (simp add: ffs)
  have l14: "length (map riskScore F) \<le> 14" using len by simp
  have rng: "\<forall>x \<in> set (map riskScore F). 0 \<le> x \<and> x \<le> 146"
    using it(3) sF by fastforce
  have e: "\<bar>doubleMean (map riskScore F) - sum_list (map riskScore F) / real (length F)\<bar> \<le> 3 / 2 ^ 42"
    using doubleMean_error [OF ne l14 rng] by simp
  have lF: "length F \<noteq> 0" by (simp add: ffs)
  have ri: "riskIndex (summary (createSyntheticBundle rt cid year ts nodeIds)) =
      toFixed 2 (doubleMean (map riskScore F))"
    unfolding bundle_summary F_def [symmetric] doubleMean_def using lF by simp
  have mr: "maxRisk (summary (createSyntheticBundle rt cid year ts nodeIds)) = riskScore f"
    unfolding bundle_summary F_def [symmetric] using r by (simp add: ffs)
  have nF: "F \<noteq> []" by (simp add: ffs)
  show ?thesis
    unfolding bundle_forecasts F_def [symmetric]
    using nF ri e mr m by simp
qed

text \<open>
  Claim C10. \<open>createSyntheticBundle\<close> assigns \<open>riskIndex\<close> and \<open>maxRisk\<close> only: every
  other field of its summary is the one \<open>createSyntheticHexagonSummary\<close> produced for the
  same cell, year and clock reading; status and advisories are not recomputed.
\<close>

theorem bundle_frame:
  "cellId (summary (createSyntheticBundle rt cid year ts nodeIds)) = cellId (createSyntheticHexagonSummary rt cid year) \<and>
   center (summary (createSyntheticBundle rt cid year ts nodeIds)) = center (createSyntheticHexagonSummary rt cid year) \<and>
   boundary (summary (createSyntheticBundle rt cid year ts nodeIds)) = boundary (createSyntheticHexagonSummary rt cid year) \<and>
   balanceIndex (summary (createSyntheticBundle rt cid year ts nodeIds)) = balanceIndex (createSyntheticHexagonSummary rt cid year) \<and>
   peakBalance (summary (createSyntheticBundle rt cid year ts nodeIds)) = peakBalance (createSyntheticHexagonSummary rt cid year) \<and>
   maintenanceScore (summary (createSyntheticBundle rt cid year ts nodeIds)) = maintenanceScore (createSyntheticHexagonSummary rt cid year) \<and>
   leakProbability (summary (createSyntheticBundle rt cid year ts nodeIds)) = leakProbability (createSyntheticHexagonSummary rt cid year) \<and>
   flowRate (summary (createSyntheticBundle rt cid year ts nodeIds)) = flowRate (createSyntheticHexagonSummary rt cid year) \<and>
   pressure (summary (createSyntheticBundle rt cid year ts nodeIds)) = pressure (createSyntheticHexagonSummary rt cid year) \<and>
   supplyRatio (summary (createSyntheticBundle rt cid year ts nodeIds)) = supplyRatio (createSyntheticHexagonSummary rt cid year) \<and>
   dataset (summary (createSyntheticBundle rt cid year ts nodeIds)) = dataset (createSyntheticHexagonSummary rt cid year) \<and>
   status (summary (createSyntheticBundle rt cid year ts nodeIds)) = status (createSyntheticHexagonSummary rt cid year) \<and>
   advisories (summary (createSyntheticBundle rt cid year ts nodeIds)) = advisories (createSyntheticHexagonSummary rt cid year) \<and>
   updatedAt (summary (createSyntheticBundle rt cid year ts nodeIds)) = updatedAt (createSyntheticHexagonSummary rt cid year) \<and>
   districtKey (summary (createSyntheticBundle rt cid year ts nodeIds)) = districtKey (createSyntheticHexagonSummary rt cid year) \<and>
   districtLabel (summary (createSyntheticBundle rt cid year ts nodeIds)) = districtLabel (createSyntheticHexagonSummary rt cid year)"
  unfolding bundle_summary by simp

text \<open>
  Claim C6 asks that an empty catalog leaves both aggregates at the synthesizer's values.
  The code keeps \<open>maxRisk\<close> (through \<open>?? summary.maxRisk\<close>) but overwrites \<open>riskIndex\<close>
  with \<open>0 / 1\<close>: for cell \<open>85283473fffffff\<close>, 2025 and the empty catalog the bundle's
  \<open>riskIndex\<close> is 0 while the synthesizer's is 130.81.
\<close>

theorem bundle_empty_catalog_riskIndex_zero:
  "riskIndex (summary (createSyntheticBundle utcRuntime ''85283473fffffff'' 2025 1749513600000 [])) = 0 \<and>
   riskIndex (createSyntheticHexagonSummary utcRuntime ''85283473fffffff'' 2025) = 130.81 \<and>
   maxRisk (summary (createSyntheticBundle utcRuntime ''85283473fffffff'' 2025 1749513600000 [])) = 147.03 \<and>
   maxRisk (createSyntheticHexagonSummary utcRuntime ''85283473fffffff'' 2025) = 147.03"
  unfolding bundle_summary forecasts_empty
  by (simp add: sample_summary doubleSum_def toDouble_0) (simp add: toFixed_def)

theorem bundle_empty_catalog_riskIndex_zero_differs:
  "riskIndex (summary (createSyntheticBundle utcRuntime ''85283473fffffff'' 2025 1749513600000 []))
     \<noteq> riskIndex (createSyntheticHexagonSummary utcRuntime ''85283473fffffff'' 2025)"
  using bundle_empty_catalog_riskIndex_zero by simp

text \<open>The bundle over the three-node catalog of cell \<open>85283473fffffff\<close>: the doubles of
  116.89, 113.9 and 91.42 add up, in doubles, to 322.21000000000004, a third of which
  is the double 107.40333333333335; the index is 107.4 and the maximum 116.89.\<close>

lemma sample_doubles:
  "toDouble 116.89 = 8225402506927145 / 70368744177664"
  "toDouble (0 + 8225402506927145 / 70368744177664) = 8225402506927145 / 70368744177664"
  "toDouble 113.9 = 4007499980917965 / 35184372088832"
  "toDouble (8225402506927145 / 70368744177664 + 4007499980917965 / 35184372088832) = 4060100617190769 / 17592186044416"
  "toDouble 91.42 = 6433110592722043 / 70368744177664"
  "toDouble (4060100617190769 / 17592186044416 + 6433110592722043 / 70368744177664) = 354273641585705 / 1099511627776"
  "toDouble (354273641585705 / 1099511627776 / 3) = 7557837687161707 / 70368744177664"
proof -
  show "toDouble 116.89 = 8225402506927145 / 70368744177664"
    by (subst toDouble_eval [where k = 6]) (simp_all add: roundHalfEven_def)
  show "toDouble (0 + 8225402506927145 / 70368744177664) = 8225402506927145 / 70368744177664"
    by (subst toDouble_eval [where k = 6]) (simp_all add: roundHalfEven_def)
  show "toDouble 113.9 = 4007499980917965 / 35184372088832"
    by (subst toDouble_eval [where k = 6]) (simp_all add: roundHalfEven_def)
  show "toDouble (8225402506927145 / 70368744177664 + 4007499980917965 / 35184372088832) = 4060100617190769 / 17592186044416"
    by (subst toDouble_eval [where k = 7]) (simp_all add: roundHalfEven_def)
  show "toDouble 91.42 = 6433110592722043 / 70368744177664"
    by (subst toDouble_eval [where k = 6]) (simp_all add: roundHalfEven_def)
  show "toDouble (4060100617190769 / 17592186044416 + 6433110592722043 / 70368744177664) = 354273641585705 / 1099511627776"
    by (subst toDouble_eval [where k = 8]) (simp_all add: roundHalfEven_def)
  show "toDouble (354273641585705 / 1099511627776 / 3) = 7557837687161707 / 70368744177664"
    by (subst toDouble_eval [where k = 6]) (simp_all add: roundHalfEven_def)
qed

lemma sample_doubleMean:
  "doubleMean [116.89, 113.9, 91.42] = 7557837687161707 / 70368744177664"
proof -
  have s: "doubleSum [116.89, 113.9, 91.42] = 354273641585705 / 1099511627776"
    by (simp only: doubleSum_def foldl.simps sample_doubles)
  have l: "real (length [116.89, 113.9, 91.42 :: real]) = 3" by simp
  show ?thesis by (simp only: doubleMean_def s l sample_doubles)
qed

theorem bundle_aggregates_double_mean_witness:
  "[''PS0001'', ''PS0002'', ''PS0003''] \<noteq> [] \<and>
   map riskScore (forecasts (createSyntheticBundle utcRuntime ''85283473fffffff'' 2025 1749513600000
      [''PS0001'', ''PS0002'', ''PS0003''])) = [116.89, 113.9, 91.42] \<and>
   riskIndex (summary (createSyntheticBundle utcRuntime ''85283473fffffff'' 2025 1749513600000
      [''PS0001'', ''PS0002'', ''PS0003''])) = 107.4 \<and>
   maxRisk (summary (createSyntheticBundle utcRuntime ''85283473fffffff'' 2025 1749513600000
      [''PS0001'', ''PS0002'', ''PS0003''])) = 116.89"
proof -
  have f: "forecasts (createSyntheticBundle utcRuntime ''85283473fffffff'' 2025 1749513600000
      [''PS0001'', ''PS0002'', ''PS0003'']) =
     [\<lparr>nodeId = ''PS0001'', riskScore = 116.89\<rparr>,
      \<lparr>nodeId = ''PS0002'', riskScore = 113.9\<rparr>,
      \<lparr>nodeId = ''PS0003'', riskScore = 91.42\<rparr>]"
    by (simp only: bundle_forecasts sample_forecasts)
  have n: "[''PS0001'', ''PS0002'', ''PS0003''] \<noteq> []" by simp
  have t: "toFixed 2 (7557837687161707 / 70368744177664) = 107.4"
    by (simp add: toFixed_def)
  have m: "map riskScore
     [\<lparr>nodeId = ''PS0001'', riskScore = 116.89\<rparr>,
      \<lparr>nodeId = ''PS0002'', riskScore = 113.9\<rparr>,
      \<lparr>nodeId = ''PS0003'', riskScore = 91.42\<rparr>] = [116.89, 113.9, 91.42]"
    by simp
  have x: "Max (set [116.89, 113.9, 91.42 :: real]) = 116.89" by simp
  note th = bundle_aggregates_double_mean [OF n, of utcRuntime "''85283473fffffff''" 2025 1749513600000,
      unfolded f m sample_doubleMean t x]
  show ?thesis unfolding f m using n th by blast
qed

text \<open>The exact mean is not what the code rounds. Cell \<open>82002ffffffffff\<close>, 2025, over the
  catalog \<open>PS0001\<close>, \<open>PS0002\<close>: the rotation offset is 0 and the scores are 90.87 and 121.08,
  sorted to 121.08, 90.87. Their exact mean is 105.975, which rounds to 105.98; in
  doubles the sum is 211.95 less \<open>2^-45\<close> or so and its half is the double
  105.97499999999999, which \<open>toFixed(2)\<close> renders as 105.97.\<close>

lemma tie_seed: "stringToSeed ''forecast-82002ffffffffff-2025'' = 3845611400"
  by (simp add: stringToSeed_def)

lemma tie_draws:
  "generator 3845611400 = (1735925167/4294967296, 5677177213)"
  "generator 5677177213 = (270207059/2147483648, 7508743026)"
  "generator 7508743026 = (65957203/536870912, 9340308839)"
  "generator 9340308839 = (2384884487/4294967296, 11171874652)"
  "generator 11171874652 = (1562255615/2147483648, 13003440465)"
  by (simp_all add: generator_def Let_def)

lemma upt2: "[0..<2] = [0, 1]"
  by (simp add: upt_rec)

lemma tie_forecasts:
  "createSyntheticForecasts ''82002ffffffffff'' 2025 [''PS0001'', ''PS0002''] =
     [\<lparr>nodeId = ''PS0002'', riskScore = 121.08\<rparr>,
      \<lparr>nodeId = ''PS0001'', riskScore = 90.87\<rparr>]"
  by (simp add: createSyntheticForecasts_def show2025 tie_seed tie_draws Let_def upt2
      forecastStep_def toFixed_def)

lemma tie_doubles:
  "toDouble 121.08 = 8520247545031557 / 70368744177664"
  "toDouble (0 + 8520247545031557 / 70368744177664) = 8520247545031557 / 70368744177664"
  "toDouble 90.87 = 799300972928041 / 8796093022208"
  "toDouble (8520247545031557 / 70368744177664 + 799300972928041 / 8796093022208) = 3728663832113971 / 17592186044416"
  "toDouble (3728663832113971 / 17592186044416 / 2) = 3728663832113971 / 35184372088832"
proof -
  show "toDouble 121.08 = 8520247545031557 / 70368744177664"
    by (subst toDouble_eval [where k = 6]) (simp_all add: roundHalfEven_def)
  show "toDouble (0 + 8520247545031557 / 70368744177664) = 8520247545031557 / 70368744177664"
    by (subst toDouble_eval [where k = 6]) (simp_all add: roundHalfEven_def)
  show "toDouble 90.87 = 799300972928041 / 8796093022208"
    by (subst toDouble_eval [where k = 6]) (simp_all add: roundHalfEven_def)
  show "toDouble (8520247545031557 / 70368744177664 + 799300972928041 / 8796093022208) = 3728663832113971 / 17592186044416"
    by (subst toDouble_eval [where k = 7]) (simp_all add: roundHalfEven_def)
  show "toDouble (3728663832113971 / 17592186044416 / 2) = 3728663832113971 / 35184372088832"
    by (subst toDouble_eval [where k = 6]) (simp_all add: roundHalfEven_def)
qed

lemma tie_doubleMean:
  "toDouble (doubleSum [121.08, 90.87] / 2) = 3728663832113971 / 35184372088832"
  by (simp only: doubleSum_def foldl.simps tie_doubles)

theorem bundle_mean_rounding_tie:
  "map riskScore (forecasts (createSyntheticBundle utcRuntime ''82002ffffffffff'' 2025 1749513600000
      [''PS0001'', ''PS0002''])) = [121.08, 90.87] \<and>
   riskIndex (summary (createSyntheticBundle utcRuntime ''82002ffffffffff'' 2025 1749513600000
      [''PS0001'', ''PS0002''])) = 105.97 \<and>
   toFixed 2 (sum_list (map riskScore (forecasts (createSyntheticBundle utcRuntime ''82002ffffffffff''
      2025 1749513600000 [''PS0001'', ''PS0002''])))
     / real (length (forecasts (createSyntheticBundle utcRuntime ''82002ffffffffff'' 2025
         1749513600000 [''PS0001'', ''PS0002''])))) = 105.98"
proof -
  have t: "toFixed 2 (3728663832113971 / 35184372088832) = 105.97"
    by (simp add: toFixed_def)
  have m: "map riskScore
     [\<lparr>nodeId = ''PS0002'', riskScore = 121.08\<rparr>,
      \<lparr>nodeId = ''PS0001'', riskScore = 90.87\<rparr>] = [121.08, 90.87]"
    by simp
  have l: "(if length [\<lparr>nodeId = ''PS0002'', riskScore = 121.08\<rparr>,
                       \<lparr>nodeId = ''PS0001'', riskScore = 90.87\<rparr>] = 0 then 1
            else real (length [\<lparr>nodeId = ''PS0002'', riskScore = 121.08\<rparr>,
                               \<lparr>nodeId = ''PS0001'', riskScore = 90.87\<rparr>])) = 2"
    by simp
  have r: "riskIndex (summary (createSyntheticBundle utcRuntime ''82002ffffffffff'' 2025 1749513600000
      [''PS0001'', ''PS0002''])) = 105.97"
    by (simp only: bundle_riskIndex tie_forecasts m l tie_doubleMean t)
  have x: "toFixed 2 (sum_list [121.08, 90.87]
      / real (length [\<lparr>nodeId = ''PS0002'', riskScore = 121.08\<rparr>,
                      \<lparr>nodeId = ''PS0001'', riskScore = 90.87\<rparr>])) = 105.98"
    by (simp add: toFixed_def)
  show ?thesis
    unfolding bundle_forecasts tie_forecasts m using r x by (intro conjI) (rule refl)
qed

text \<open>With \<open>riskIndex\<close> overwritten by 107.4 the status stays \<open>alert\<close>, as
  synthesized.\<close>

theorem bundle_frame_witness:
  "status (createSyntheticHexagonSummary utcRuntime ''85283473fffffff'' 2025) = ''alert'' \<and>
   status (summary (createSyntheticBundle utcRuntime ''85283473fffffff'' 2025 1749513600000
      [''PS0001'', ''PS0002'', ''PS0003''])) = ''alert'' \<and>
   advisories (summary (createSyntheticBundle utcRuntime ''85283473fffffff'' 2025 1749513600000
      [''PS0001'', ''PS0002'', ''PS0003'']))
     = advisories (createSyntheticHexagonSummary utcRuntime ''85283473fffffff'' 2025)"
  using bundle_frame [of utcRuntime "''85283473fffffff''" 2025 1749513600000
      "[''PS0001'', ''PS0002'', ''PS0003'']"]
  by (simp add: sample_summary(3))

section \<open>The reconciliation\<close>

lemma objGet_update: "objGet (AList.update k v al) k' = (if k' = k then v else objGet al k')"
  by (simp add: objGet_def update_conv')

lemma objGet_spread:
  "objGet (spread source target) k =
     (case map_of (rev source) k of Some v \<Rightarrow> v | None \<Rightarrow> objGet target k)"
  unfolding spread_def
proof (induction source arbitrary: target)
  case Nil
  show ?case by simp
next
  case (Cons p source)
  obtain k' v' where p: "p = (k', v')" by (cases p)
  show ?case
    by (simp add: p Cons.IH objGet_update map_add_def split: option.splits)
qed

lemma objGet_spread_Cons:
  "objGet (spread (p # ps) target) k =
     (case map_of (rev (p # ps)) k of Some v \<Rightarrow> v | None \<Rightarrow> objGet target k)"
  by (rule objGet_spread)

lemma objGet_Nil: "objGet [] k = JUndefined"
  by (simp add: objGet_def)

lemma map_of_rev_distinct: "distinct (map fst xs) \<Longrightarrow> map_of (rev xs) = map_of xs"
  by (rule map_of_inject_set [THEN iffD2]) (simp_all add: distinct_rev rev_map [symmetric])

lemma merge_object:
  assumes "objGet hexagon ''cellId'' = JStr cid" "cid \<noteq> []"
  shows "mergeHexagonWithSynthetic rt year (JObj hexagon) =
    Some (JObj
      (spread
         [(''center'', nullish (objGet hexagon ''center'')
              (objGet (summaryObject (createSyntheticHexagonSummary rt cid year)) ''center'')),
          (''boundary'', nullish (objGet hexagon ''boundary'')
              (objGet (summaryObject (createSyntheticHexagonSummary rt cid year)) ''boundary'')),
          (''districtKey'', nullish (objGet hexagon ''districtKey'')
              (nullish (objGet (summaryObject (createSyntheticHexagonSummary rt cid year)) ''districtKey'')
                 (nullish (optGet (resolveDistrict rt cid) ''key'') JNull))),
          (''districtLabel'', nullish (objGet hexagon ''districtLabel'')
              (nullish (objGet (summaryObject (createSyntheticHexagonSummary rt cid year)) ''districtLabel'')
                 (nullish (optGet (resolveDistrict rt cid) ''label'') JNull))),
          (''riskIndex'', numberOr (objGet hexagon ''riskIndex'')
              (objGet (summaryObject (createSyntheticHexagonSummary rt cid year)) ''riskIndex'')),
          (''maxRisk'', numberOr (objGet hexagon ''maxRisk'')
              (objGet (summaryObject (createSyntheticHexagonSummary rt cid year)) ''maxRisk'')),
          (''maxYield'', numberOr (objGet hexagon ''maxYield'')
              (objGet (summaryObject (createSyntheticHexagonSummary rt cid year)) ''maxYield'')),
          (''yield'', numberOr (objGet hexagon ''yield'')
              (objGet (summaryObject (createSyntheticHexagonSummary rt cid year)) ''yield'')),
          (''score'', numberOr (objGet hexagon ''score'')
              (objGet (summaryObject (createSyntheticHexagonSummary rt cid year)) ''score'')),
          (''leakProbability'', numberOr (objGet hexagon ''leakProbability'')
              (objGet (summaryObject (createSyntheticHexagonSummary rt cid year)) ''leakProbability'')),
          (''flowRate'', numberOr (objGet hexagon ''flowRate'')
              (objGet (summaryObject (createSyntheticHexagonSummary rt cid year)) ''flowRate'')),
          (''pressure'', numberOr (objGet hexagon ''pressure'')
              (objGet (summaryObject (createSyntheticHexagonSummary rt cid year)) ''pressure'')),
          (''dataset'', nullish (objGet hexagon ''dataset'')
              (objGet (summaryObject (createSyntheticHexagonSummary rt cid year)) ''dataset'')),
          (''status'', nullish (objGet hexagon ''status'')
              (objGet (summaryObject (createSyntheticHexagonSummary rt cid year)) ''status'')),
          (''advisories'', nullish (objGet hexagon ''advisories'')
              (objGet (summaryObject (createSyntheticHexagonSummary rt cid year)) ''advisories'')),
          (''updatedAt'', nullish (objGet hexagon ''updatedAt'')
              (objGet (summaryObject (createSyntheticHexagonSummary rt cid year)) ''updatedAt''))]
         (spread hexagon (spread (summaryObject (createSyntheticHexagonSummary rt cid year)) []))))"
  using assms by (simp add: mergeHexagonWithSynthetic.simps Let_def)


lemma summaryObject_keys:
  "map fst (summaryObject s) =
     [''cellId'', ''center'', ''boundary'', ''riskIndex'', ''maxRisk'', ''balanceIndex'',
      ''peakBalance'', ''maintenanceScore'', ''leakProbability'', ''flowRate'', ''pressure'',
      ''supplyRatio'', ''dataset'', ''status'', ''advisories'', ''updatedAt'', ''districtKey'',
      ''districtLabel'']"
  by (simp add: summaryObject_def)

lemma objGet_spread_summary:
  "objGet (spread (summaryObject s) []) k = objGet (summaryObject s) k"
proof -
  have "distinct (map fst (summaryObject s))" unfolding summaryObject_keys by simp
  then have "map_of (rev (summaryObject s)) = map_of (summaryObject s)"
    by (rule map_of_rev_distinct)
  then show ?thesis
    unfolding objGet_spread objGet_Nil by (simp add: objGet_def split: option.splits)
qed

lemma merge_get:
  assumes "objGet hexagon ''cellId'' = JStr cid" "cid \<noteq> []"
  shows "resultGet (mergeHexagonWithSynthetic rt year (JObj hexagon)) k = Some
    (if k \<in> {''riskIndex'', ''maxRisk'', ''maxYield'', ''yield'', ''score'', ''leakProbability'',
              ''flowRate'', ''pressure''}
     then numberOr (objGet hexagon k)
            (objGet (summaryObject (createSyntheticHexagonSummary rt cid year)) k)
     else if k \<in> {''center'', ''boundary'', ''dataset'', ''status'', ''advisories'', ''updatedAt''}
     then nullish (objGet hexagon k)
            (objGet (summaryObject (createSyntheticHexagonSummary rt cid year)) k)
     else if k = ''districtKey''
     then nullish (objGet hexagon k)
            (nullish (objGet (summaryObject (createSyntheticHexagonSummary rt cid year)) k)
               (nullish (optGet (resolveDistrict rt cid) ''key'') JNull))
     else if k = ''districtLabel''
     then nullish (objGet hexagon k)
            (nullish (objGet (summaryObject (createSyntheticHexagonSummary rt cid year)) k)
               (nullish (optGet (resolveDistrict rt cid) ''label'') JNull))
     else (case map_of (rev hexagon) k of
             Some v \<Rightarrow> v
           | None \<Rightarrow> objGet (summaryObject (createSyntheticHexagonSummary rt cid year)) k))"
proof -
  have inner: "objGet (spread hexagon (spread (summaryObject (createSyntheticHexagonSummary rt cid year)) [])) k
      = (case map_of (rev hexagon) k of
           Some v \<Rightarrow> v
         | None \<Rightarrow> objGet (summaryObject (createSyntheticHexagonSummary rt cid year)) k)"
    by (simp only: objGet_spread [of hexagon] objGet_spread_summary)
  show ?thesis
    unfolding merge_object [OF assms] resultGet_def
    by (simp add: objGet_spread_Cons inner)
qed


lemma nullish_idem: "nullish a a = a"
  by (cases a) simp_all

lemma optGet_nullish_JNull: "optGet (nullish d JNull) k = optGet d k"
  by (cases d) simp_all

lemma summary_district:
  "districtKey (createSyntheticHexagonSummary rt cid year)
     = nullish (optGet (districtLookup rt cid) ''key'') JNull"
  "districtLabel (createSyntheticHexagonSummary rt cid year)
     = nullish (optGet (districtLookup rt cid) ''label'') JNull"
  "cellId (createSyntheticHexagonSummary rt cid year) = cid"
  by (simp_all only: createSyntheticHexagonSummary_def Let_def draw_simps
      hexagonSummary.select_convs)

lemma district_fallback:
  assumes "cid \<noteq> []"
  shows "nullish (objGet (summaryObject (createSyntheticHexagonSummary rt cid year)) ''districtKey'')
           (nullish (optGet (resolveDistrict rt cid) ''key'') JNull)
         = objGet (summaryObject (createSyntheticHexagonSummary rt cid year)) ''districtKey''"
    and "nullish (objGet (summaryObject (createSyntheticHexagonSummary rt cid year)) ''districtLabel'')
           (nullish (optGet (resolveDistrict rt cid) ''label'') JNull)
         = objGet (summaryObject (createSyntheticHexagonSummary rt cid year)) ''districtLabel''"
  using assms
  by (simp_all add: summaryObject_def objGet_def summary_district resolveDistrict_def
      optGet_nullish_JNull nullish_idem)

lemma summaryObject_get:
  "objGet (summaryObject s) ''cellId'' = JStr (cellId s)"
  "objGet (summaryObject s) ''riskIndex'' = JNum (Fin (riskIndex s))"
  "objGet (summaryObject s) ''pressure'' = JNum (Fin (pressure s))"
  "objGet (summaryObject s) ''supplyRatio'' = JNum (Fin (supplyRatio s))"
  "objGet (summaryObject s) ''status'' = JStr (status s)"
  "objGet (summaryObject s) ''maxYield'' = JUndefined"
  "objGet (summaryObject s) ''yield'' = JUndefined"
  "objGet (summaryObject s) ''score'' = JUndefined"
  by (simp_all add: summaryObject_def objGet_def)

text \<open>
  Claim C3, as the code has it. For a live record with a non-empty string \<open>cellId\<close> the
  merge returns an object, field by field:
  \<^item> \<open>riskIndex\<close>, \<open>maxRisk\<close>, \<open>maxYield\<close>, \<open>yield\<close>, \<open>score\<close>, \<open>leakProbability\<close>,
    \<open>flowRate\<close>, \<open>pressure\<close>: the live value when it is a Number other than NaN (an
    infinity passes), otherwise the synthetic value;
  \<^item> \<open>center\<close>, \<open>boundary\<close>, \<open>districtKey\<close>, \<open>districtLabel\<close>, \<open>dataset\<close>, \<open>status\<close>,
    \<open>advisories\<close>, \<open>updatedAt\<close>: the live value unless it is \<open>undefined\<close> or \<open>null\<close>,
    whatever its type, otherwise the synthetic value (for the two district fields the
    code's further fallbacks \<open>districtMeta?.key ?? null\<close> are never reached, the
    synthetic summary always carrying a district);
  \<^item> \<open>balanceIndex\<close>, \<open>peakBalance\<close>, \<open>maintenanceScore\<close>, \<open>supplyRatio\<close>: the live value
    when it is a Number other than NaN (the record listing each key once, as an object
    does);
  \<^item> a property the live record does not carry: the synthetic value;
  \<^item> in particular, for the record with \<open>cellId\<close> and \<open>riskIndex = 120\<close> only, the result
    has \<open>riskIndex = 120\<close> and every other property as in the synthetic summary.
\<close>

theorem merge_field_rules:
  assumes "objGet hexagon ''cellId'' = JStr cid" and "cid \<noteq> []"
  shows
    "(\<forall>k \<in> {''riskIndex'', ''maxRisk'', ''maxYield'', ''yield'', ''score'', ''leakProbability'',
             ''flowRate'', ''pressure''}.
        resultGet (mergeHexagonWithSynthetic rt year (JObj hexagon)) k =
          Some (if typeof (objGet hexagon k) = ''number'' \<and> \<not> Number_isNaN (objGet hexagon k)
                then objGet hexagon k else objGet (summaryObject (createSyntheticHexagonSummary rt cid year)) k)) \<and>
     (\<forall>k \<in> {''center'', ''boundary'', ''districtKey'', ''districtLabel'', ''dataset'', ''status'',
             ''advisories'', ''updatedAt''}.
        resultGet (mergeHexagonWithSynthetic rt year (JObj hexagon)) k =
          Some (if objGet hexagon k = JUndefined \<or> objGet hexagon k = JNull
                then objGet (summaryObject (createSyntheticHexagonSummary rt cid year)) k else objGet hexagon k)) \<and>
     (distinct (map fst hexagon) \<longrightarrow>
        (\<forall>k \<in> {''balanceIndex'', ''peakBalance'', ''maintenanceScore'', ''supplyRatio''}.
           typeof (objGet hexagon k) = ''number'' \<and> \<not> Number_isNaN (objGet hexagon k) \<longrightarrow>
           resultGet (mergeHexagonWithSynthetic rt year (JObj hexagon)) k = Some (objGet hexagon k))) \<and>
     (\<forall>k. k \<notin> set (map fst hexagon) \<longrightarrow>
        resultGet (mergeHexagonWithSynthetic rt year (JObj hexagon)) k =
          Some (objGet (summaryObject (createSyntheticHexagonSummary rt cid year)) k)) \<and>
     (hexagon = [(''cellId'', JStr cid), (''riskIndex'', JNum (Fin 120))] \<longrightarrow>
        resultGet (mergeHexagonWithSynthetic rt year (JObj hexagon)) ''riskIndex''
          = Some (JNum (Fin 120)) \<and>
        (\<forall>k. k \<noteq> ''riskIndex'' \<longrightarrow>
           resultGet (mergeHexagonWithSynthetic rt year (JObj hexagon)) k = Some (objGet (summaryObject (createSyntheticHexagonSummary rt cid year)) k)))"
proof -
  have nl: "nullish a b = (if a = JUndefined \<or> a = JNull then b else a)" for a b
    by (cases a) simp_all
  note df = district_fallback [OF assms(2), of rt year]
  have p1: "\<forall>k \<in> {''riskIndex'', ''maxRisk'', ''maxYield'', ''yield'', ''score'', ''leakProbability'',
             ''flowRate'', ''pressure''}.
        resultGet (mergeHexagonWithSynthetic rt year (JObj hexagon)) k =
          Some (if typeof (objGet hexagon k) = ''number'' \<and> \<not> Number_isNaN (objGet hexagon k)
                then objGet hexagon k else objGet (summaryObject (createSyntheticHexagonSummary rt cid year)) k)"
    unfolding merge_get [OF assms] by (simp add: numberOr_def)
  have p2: "\<forall>k \<in> {''center'', ''boundary'', ''districtKey'', ''districtLabel'', ''dataset'', ''status'',
             ''advisories'', ''updatedAt''}.
        resultGet (mergeHexagonWithSynthetic rt year (JObj hexagon)) k =
          Some (if objGet hexagon k = JUndefined \<or> objGet hexagon k = JNull
                then objGet (summaryObject (createSyntheticHexagonSummary rt cid year)) k else objGet hexagon k)"
  proof -
    have a: "\<forall>k \<in> {''center'', ''boundary'', ''dataset'', ''status'', ''advisories'', ''updatedAt''}.
        resultGet (mergeHexagonWithSynthetic rt year (JObj hexagon)) k =
          Some (if objGet hexagon k = JUndefined \<or> objGet hexagon k = JNull
                then objGet (summaryObject (createSyntheticHexagonSummary rt cid year)) k else objGet hexagon k)"
      unfolding merge_get [OF assms] by (simp add: nl)
    have b: "resultGet (mergeHexagonWithSynthetic rt year (JObj hexagon)) ''districtKey'' =
          Some (if objGet hexagon ''districtKey'' = JUndefined \<or> objGet hexagon ''districtKey'' = JNull
                then objGet (summaryObject (createSyntheticHexagonSummary rt cid year)) ''districtKey''
                else objGet hexagon ''districtKey'')"
      unfolding merge_get [OF assms] by (simp add: df(1)) (simp add: nl)
    have c: "resultGet (mergeHexagonWithSynthetic rt year (JObj hexagon)) ''districtLabel'' =
          Some (if objGet hexagon ''districtLabel'' = JUndefined \<or> objGet hexagon ''districtLabel'' = JNull
                then objGet (summaryObject (createSyntheticHexagonSummary rt cid year)) ''districtLabel''
                else objGet hexagon ''districtLabel'')"
      unfolding merge_get [OF assms] by (simp add: df(2)) (simp add: nl)
    from a b c show ?thesis by simp
  qed
  have p3: "\<forall>k \<in> {''balanceIndex'', ''peakBalance'', ''maintenanceScore'', ''supplyRatio''}.
           typeof (objGet hexagon k) = ''number'' \<and> \<not> Number_isNaN (objGet hexagon k) \<longrightarrow>
           resultGet (mergeHexagonWithSynthetic rt year (JObj hexagon)) k = Some (objGet hexagon k)"
    if d: "distinct (map fst hexagon)"
  proof -
    have "(case map_of hexagon k of Some v \<Rightarrow> v | None \<Rightarrow> s) = objGet hexagon k"
      if "typeof (objGet hexagon k) = ''number''" for k s
      using that by (cases "map_of hexagon k") (simp_all add: objGet_def)
    then show ?thesis
      unfolding merge_get [OF assms] map_of_rev_distinct [OF d] by simp
  qed
  have p4: "\<forall>k. k \<notin> set (map fst hexagon) \<longrightarrow>
        resultGet (mergeHexagonWithSynthetic rt year (JObj hexagon)) k =
          Some (objGet (summaryObject (createSyntheticHexagonSummary rt cid year)) k)"
  proof (intro allI impI)
    fix k assume "k \<notin> set (map fst hexagon)"
    then have n: "map_of hexagon k = None" "map_of (rev hexagon) k = None"
      by (simp_all add: map_of_eq_None_iff)
    have u: "objGet hexagon k = JUndefined" by (simp add: objGet_def n(1))
    show "resultGet (mergeHexagonWithSynthetic rt year (JObj hexagon)) k =
          Some (objGet (summaryObject (createSyntheticHexagonSummary rt cid year)) k)"
      unfolding merge_get [OF assms] u n(2)
      using df by (auto simp: numberOr_def)
  qed
  have p5: "resultGet (mergeHexagonWithSynthetic rt year (JObj hexagon)) ''riskIndex''
          = Some (JNum (Fin 120)) \<and>
        (\<forall>k. k \<noteq> ''riskIndex'' \<longrightarrow>
           resultGet (mergeHexagonWithSynthetic rt year (JObj hexagon)) k = Some (objGet (summaryObject (createSyntheticHexagonSummary rt cid year)) k))"
    if h: "hexagon = [(''cellId'', JStr cid), (''riskIndex'', JNum (Fin 120))]"
  proof -
    have g: "objGet hexagon k = (if k = ''cellId'' then JStr cid
        else if k = ''riskIndex'' then JNum (Fin 120) else JUndefined)" for k
      by (simp add: h objGet_def)
    have m: "map_of (rev hexagon) k = (if k = ''riskIndex'' then Some (JNum (Fin 120))
        else if k = ''cellId'' then Some (JStr cid) else None)" for k
      by (simp add: h)
    show ?thesis
      unfolding merge_get [OF assms] g m
      using df
      by (auto simp: numberOr_def summaryObject_get summary_district)
  qed
  from p1 p2 p3 p4 p5 show ?thesis by blast
qed


text \<open>Three records for cell \<open>85283473fffffff\<close>, 2025: \<open>{cellId, riskIndex: 120}\<close> keeps
  its index and takes the rest from the synthetic summary; \<open>{cellId, supplyRatio: 1}\<close>
  keeps its ratio; \<open>{cellId, districtKey: null}\<close> takes the synthetic district.\<close>

theorem merge_field_rules_witness:
  "objGet [(''cellId'', JStr ''85283473fffffff''), (''riskIndex'', JNum (Fin 120))] ''cellId'' = JStr ''85283473fffffff'' \<and>
   ''85283473fffffff'' \<noteq> [] \<and>
   resultGet (mergeHexagonWithSynthetic utcRuntime 2025 (JObj [(''cellId'', JStr ''85283473fffffff''), (''riskIndex'', JNum (Fin 120))])) ''riskIndex''
     = Some (JNum (Fin 120)) \<and>
   resultGet (mergeHexagonWithSynthetic utcRuntime 2025 (JObj [(''cellId'', JStr ''85283473fffffff''), (''riskIndex'', JNum (Fin 120))])) ''pressure''
     = Some (objGet (summaryObject (createSyntheticHexagonSummary utcRuntime ''85283473fffffff'' 2025)) ''pressure'') \<and>
   resultGet (mergeHexagonWithSynthetic utcRuntime 2025 (JObj [(''cellId'', JStr ''85283473fffffff''), (''riskIndex'', JNum (Fin 120))])) ''advisories''
     = Some (objGet (summaryObject (createSyntheticHexagonSummary utcRuntime ''85283473fffffff'' 2025)) ''advisories'') \<and>
   resultGet (mergeHexagonWithSynthetic utcRuntime 2025 (JObj [(''cellId'', JStr ''85283473fffffff''), (''riskIndex'', JNum (Fin 120))])) ''status''
     = Some (JStr ''alert'') \<and>
   distinct (map fst [(''cellId'', JStr ''85283473fffffff''), (''supplyRatio'', JNum (Fin 1))]) \<and>
   typeof (objGet [(''cellId'', JStr ''85283473fffffff''), (''supplyRatio'', JNum (Fin 1))] ''supplyRatio'') = ''number'' \<and>
   resultGet (mergeHexagonWithSynthetic utcRuntime 2025 (JObj [(''cellId'', JStr ''85283473fffffff''), (''supplyRatio'', JNum (Fin 1))])) ''supplyRatio''
     = Some (JNum (Fin 1)) \<and>
   objGet [(''cellId'', JStr ''85283473fffffff''), (''districtKey'', JNull)] ''districtKey'' = JNull \<and>
   resultGet (mergeHexagonWithSynthetic utcRuntime 2025 (JObj [(''cellId'', JStr ''85283473fffffff''), (''districtKey'', JNull)])) ''districtKey''
     = Some (objGet (summaryObject (createSyntheticHexagonSummary utcRuntime ''85283473fffffff'' 2025)) ''districtKey'')"
proof -
  have a: "objGet [(''cellId'', JStr ''85283473fffffff''), (''riskIndex'', JNum (Fin 120))] ''cellId'' = JStr ''85283473fffffff''"
    by (simp add: objGet_def)
  have a2: "objGet [(''cellId'', JStr ''85283473fffffff''), (''supplyRatio'', JNum (Fin 1))] ''cellId'' = JStr ''85283473fffffff''"
    by (simp add: objGet_def)
  have a3: "objGet [(''cellId'', JStr ''85283473fffffff''), (''districtKey'', JNull)] ''cellId'' = JStr ''85283473fffffff''"
    by (simp add: objGet_def)
  have b: "''85283473fffffff'' \<noteq> []" by simp
  note r1 = merge_field_rules [OF a b, of utcRuntime 2025, THEN conjunct2, THEN conjunct2,
      THEN conjunct2, THEN conjunct2, THEN mp, OF refl]
  have p: "resultGet (mergeHexagonWithSynthetic utcRuntime 2025 (JObj [(''cellId'', JStr ''85283473fffffff''), (''riskIndex'', JNum (Fin 120))])) ''riskIndex''
          = Some (JNum (Fin 120))"
    by (rule r1 [THEN conjunct1])
  have q: "k \<noteq> ''riskIndex'' \<Longrightarrow>
           resultGet (mergeHexagonWithSynthetic utcRuntime 2025 (JObj [(''cellId'', JStr ''85283473fffffff''), (''riskIndex'', JNum (Fin 120))])) k
             = Some (objGet (summaryObject (createSyntheticHexagonSummary utcRuntime ''85283473fffffff'' 2025)) k)" for k
    by (rule r1 [THEN conjunct2, THEN spec, THEN mp])
  have st: "objGet (summaryObject (createSyntheticHexagonSummary utcRuntime ''85283473fffffff'' 2025)) ''status'' = JStr ''alert''"
    by (simp only: summaryObject_get sample_summary(3))
  have s: "resultGet (mergeHexagonWithSynthetic utcRuntime 2025 (JObj [(''cellId'', JStr ''85283473fffffff''), (''riskIndex'', JNum (Fin 120))])) ''pressure''
     = Some (objGet (summaryObject (createSyntheticHexagonSummary utcRuntime ''85283473fffffff'' 2025)) ''pressure'')"
    "resultGet (mergeHexagonWithSynthetic utcRuntime 2025 (JObj [(''cellId'', JStr ''85283473fffffff''), (''riskIndex'', JNum (Fin 120))])) ''advisories''
     = Some (objGet (summaryObject (createSyntheticHexagonSummary utcRuntime ''85283473fffffff'' 2025)) ''advisories'')"
    "resultGet (mergeHexagonWithSynthetic utcRuntime 2025 (JObj [(''cellId'', JStr ''85283473fffffff''), (''riskIndex'', JNum (Fin 120))])) ''status''
     = Some (JStr ''alert'')"
    using q [of "''pressure''"] q [of "''advisories''"] q [of "''status''"] st by simp_all
  have d2: "distinct (map fst [(''cellId'', JStr ''85283473fffffff''), (''supplyRatio'', JNum (Fin 1))])" by simp
  have g2: "objGet [(''cellId'', JStr ''85283473fffffff''), (''supplyRatio'', JNum (Fin 1))] ''supplyRatio'' = JNum (Fin 1)"
    by (simp add: objGet_def)
  have t2: "typeof (objGet [(''cellId'', JStr ''85283473fffffff''), (''supplyRatio'', JNum (Fin 1))] ''supplyRatio'') = ''number''"
    unfolding g2 by simp
  have n2: "typeof (objGet [(''cellId'', JStr ''85283473fffffff''), (''supplyRatio'', JNum (Fin 1))] ''supplyRatio'') = ''number'' \<and>
      \<not> Number_isNaN (objGet [(''cellId'', JStr ''85283473fffffff''), (''supplyRatio'', JNum (Fin 1))] ''supplyRatio'')"
    unfolding g2 by simp
  have m2: "''supplyRatio'' \<in> {''balanceIndex'', ''peakBalance'', ''maintenanceScore'', ''supplyRatio''}"
    by simp
  have r2: "resultGet (mergeHexagonWithSynthetic utcRuntime 2025 (JObj [(''cellId'', JStr ''85283473fffffff''), (''supplyRatio'', JNum (Fin 1))])) ''supplyRatio''
     = Some (JNum (Fin 1))"
    using merge_field_rules [OF a2 b, of utcRuntime 2025, THEN conjunct2, THEN conjunct2,
      THEN conjunct1, THEN mp, OF d2, THEN bspec, OF m2, THEN mp, OF n2]
    unfolding g2 .
  have g3: "objGet [(''cellId'', JStr ''85283473fffffff''), (''districtKey'', JNull)] ''districtKey'' = JNull"
    by (simp add: objGet_def)
  have m3: "''districtKey'' \<in> {''center'', ''boundary'', ''districtKey'', ''districtLabel'', ''dataset'',
      ''status'', ''advisories'', ''updatedAt''}"
    by simp
  have r3: "resultGet (mergeHexagonWithSynthetic utcRuntime 2025 (JObj [(''cellId'', JStr ''85283473fffffff''), (''districtKey'', JNull)])) ''districtKey''
     = Some (objGet (summaryObject (createSyntheticHexagonSummary utcRuntime ''85283473fffffff'' 2025)) ''districtKey'')"
    using merge_field_rules [OF a3 b, of utcRuntime 2025, THEN conjunct2, THEN conjunct1,
      THEN bspec, OF m3]
    unfolding g3 by simp
  from a b p s d2 t2 r2 g3 r3 show ?thesis by (intro conjI)
qed

text \<open>
  The merge is not the claim's rule. A live \<open>riskIndex\<close> of \<open>Infinity\<close> is kept, where the
  claim wants a finite number or else the synthetic 130.81 (the test is
  \<open>typeof ... === 'number' && !Number.isNaN(...)\<close>); and the record \<open>{riskIndex: 120}\<close> and
  nothing else, having no \<open>cellId\<close>, is returned as it is, with no \<open>pressure\<close> at all, where
  the claim wants the synthetic pressure.
\<close>

theorem merge_keeps_infinity_and_bare_record:
  "resultGet (mergeHexagonWithSynthetic utcRuntime 2025
      (JObj [(''cellId'', JStr ''85283473fffffff''), (''riskIndex'', JNum PosInf)])) ''riskIndex''
     = Some (JNum PosInf) \<and>
   objGet (summaryObject (createSyntheticHexagonSummary utcRuntime ''85283473fffffff'' 2025)) ''riskIndex''
     = JNum (Fin 130.81) \<and>
   mergeHexagonWithSynthetic utcRuntime 2025 (JObj [(''riskIndex'', JNum (Fin 120))])
     = Some (JObj [(''riskIndex'', JNum (Fin 120))]) \<and>
   resultGet (mergeHexagonWithSynthetic utcRuntime 2025 (JObj [(''riskIndex'', JNum (Fin 120))]))
      ''pressure'' = Some JUndefined \<and>
   objGet (summaryObject (createSyntheticHexagonSummary utcRuntime ''85283473fffffff'' 2025)) ''pressure'' \<noteq> JUndefined"
proof -
  have c: "''85283473fffffff'' \<noteq> []" by simp
  have a2: "objGet [(''cellId'', JStr ''85283473fffffff''), (''riskIndex'', JNum PosInf)] ''cellId'' = JStr ''85283473fffffff''"
    by (simp add: objGet_def)
  have 1: "resultGet (mergeHexagonWithSynthetic utcRuntime 2025
      (JObj [(''cellId'', JStr ''85283473fffffff''), (''riskIndex'', JNum PosInf)])) ''riskIndex''
     = Some (JNum PosInf)"
    unfolding merge_get [OF a2 c] by (simp add: objGet_def numberOr_def)
  have 2: "objGet (summaryObject (createSyntheticHexagonSummary utcRuntime ''85283473fffffff'' 2025)) ''riskIndex''
     = JNum (Fin 130.81)"
    by (simp only: summaryObject_get sample_summary(1))
  have 3: "mergeHexagonWithSynthetic utcRuntime 2025 (JObj [(''riskIndex'', JNum (Fin 120))])
     = Some (JObj [(''riskIndex'', JNum (Fin 120))])"
    by (simp add: mergeHexagonWithSynthetic.simps objGet_def)
  have 4: "resultGet (mergeHexagonWithSynthetic utcRuntime 2025 (JObj [(''riskIndex'', JNum (Fin 120))]))
      ''pressure'' = Some JUndefined"
    unfolding 3 by (simp add: resultGet_def objGet_def)
  have 5: "objGet (summaryObject (createSyntheticHexagonSummary utcRuntime ''85283473fffffff'' 2025)) ''pressure'' \<noteq> JUndefined"
    by (simp_all only: summaryObject_get) simp_all
  from 1 2 3 4 5 show ?thesis by (intro conjI)
qed

text \<open>
  Claim C4, as the code has it. \<open>null\<close>, \<open>undefined\<close> and the empty record have no
  \<open>cellId\<close> and are returned unchanged by the guard; the pure synthetic summary is what a
  record that carries its \<open>cellId\<close> and nothing else reconciles to, on every property read.
  (The caller builds the synthetic summaries itself when the response holds no records.)
\<close>

theorem merge_without_cellId:
  "mergeHexagonWithSynthetic rt year JNull = Some JNull \<and>
   mergeHexagonWithSynthetic rt year JUndefined = Some JUndefined \<and>
   mergeHexagonWithSynthetic rt year (JObj []) = Some (JObj []) \<and>
   (cid \<noteq> [] \<longrightarrow>
      (\<forall>k. resultGet (mergeHexagonWithSynthetic rt year (JObj [(''cellId'', JStr cid)])) k
             = Some (objGet (summaryObject (createSyntheticHexagonSummary rt cid year)) k)))"
proof -
  have "resultGet (mergeHexagonWithSynthetic rt year (JObj [(''cellId'', JStr cid)])) k
             = Some (objGet (summaryObject (createSyntheticHexagonSummary rt cid year)) k)"
    if c: "cid \<noteq> []" for k
  proof -
    have a: "objGet [(''cellId'', JStr cid)] ''cellId'' = JStr cid" by (simp add: objGet_def)
    have g: "objGet [(''cellId'', JStr cid)] k = (if k = ''cellId'' then JStr cid else JUndefined)" for k
      by (simp add: objGet_def)
    show ?thesis
      unfolding merge_get [OF a c] g
      using district_fallback [OF c, of rt year]
      by (auto simp: numberOr_def summaryObject_get summary_district)
  qed
  then show ?thesis by (simp add: mergeHexagonWithSynthetic.simps objGet_def)
qed

theorem merge_without_cellId_witness:
  "''85283473fffffff'' \<noteq> [] \<and>
   (\<forall>k. resultGet (mergeHexagonWithSynthetic utcRuntime 2025 (JObj [(''cellId'', JStr ''85283473fffffff'')])) k
          = Some (objGet (summaryObject (createSyntheticHexagonSummary utcRuntime ''85283473fffffff'' 2025)) k)) \<and>
   resultGet (mergeHexagonWithSynthetic utcRuntime 2025 (JObj [(''cellId'', JStr ''85283473fffffff'')])) ''riskIndex''
     = Some (JNum (Fin 130.81))"
proof -
  have c: "''85283473fffffff'' \<noteq> []" by simp
  from merge_without_cellId [of utcRuntime 2025 "''85283473fffffff''"] c
  have all: "\<forall>k. resultGet (mergeHexagonWithSynthetic utcRuntime 2025 (JObj [(''cellId'', JStr ''85283473fffffff'')])) k
          = Some (objGet (summaryObject (createSyntheticHexagonSummary utcRuntime ''85283473fffffff'' 2025)) k)"
    by blast
  have "objGet (summaryObject (createSyntheticHexagonSummary utcRuntime ''85283473fffffff'' 2025)) ''riskIndex'' = JNum (Fin 130.81)"
    by (simp only: summaryObject_get sample_summary(1))
  with all c show ?thesis by simp
qed

text \<open>\<open>null\<close> and \<open>{}\<close> come back as they are, not as a synthetic summary.\<close>

theorem merge_null_and_empty_unchanged:
  "mergeHexagonWithSynthetic utcRuntime 2025 JNull = Some JNull \<and>
   mergeHexagonWithSynthetic utcRuntime 2025 (JObj []) = Some (JObj []) \<and>
   JNull \<noteq> JObj (summaryObject (createSyntheticHexagonSummary utcRuntime ''85283473fffffff'' 2025)) \<and>
   JObj [] \<noteq> JObj (summaryObject (createSyntheticHexagonSummary utcRuntime ''85283473fffffff'' 2025)) \<and>
   resultGet (mergeHexagonWithSynthetic utcRuntime 2025 (JObj [])) ''riskIndex'' = Some JUndefined \<and>
   objGet (summaryObject (createSyntheticHexagonSummary utcRuntime ''85283473fffffff'' 2025)) ''riskIndex'' = JNum (Fin 130.81)"
proof -
  have 1: "mergeHexagonWithSynthetic utcRuntime 2025 JNull = Some JNull"
    by (simp add: mergeHexagonWithSynthetic.simps)
  have 2: "mergeHexagonWithSynthetic utcRuntime 2025 (JObj []) = Some (JObj [])"
    by (simp add: mergeHexagonWithSynthetic.simps objGet_def)
  have 3: "JNull \<noteq> JObj (summaryObject (createSyntheticHexagonSummary utcRuntime ''85283473fffffff'' 2025))" by simp
  have 4: "JObj [] \<noteq> JObj (summaryObject (createSyntheticHexagonSummary utcRuntime ''85283473fffffff'' 2025))" by (simp add: summaryObject_def)
  have 5: "resultGet (mergeHexagonWithSynthetic utcRuntime 2025 (JObj [])) ''riskIndex'' = Some JUndefined"
    unfolding 2 by (simp add: resultGet_def objGet_def)
  have 6: "objGet (summaryObject (createSyntheticHexagonSummary utcRuntime ''85283473fffffff'' 2025)) ''riskIndex'' = JNum (Fin 130.81)"
    by (simp only: summaryObject_get sample_summary(1))
  from 1 2 3 4 5 6 show ?thesis by (intro conjI)
qed

end
